theory Spec2Isabelle
  imports Main "HOL-Library.AList"
begin

section \<open>Values exchanged with the handlers\<close>

text \<open>
  The handlers of \<^verbatim>\<open>src/index.ts\<close> receive parsed JSON request bodies, build plain
  objects from them and hand these to the platform's persistent map, which keeps them in
  serialised form. The model therefore works on JSON values. An object is an association
  list of its members, in member order, with one entry per key (as a parsed body and every
  object built below has). A \<^verbatim>\<open>Date\<close> appears in its serialised form, so it is a JSON
  value as well. JSON numbers are kept as integers: the handlers only ask for the
  \<^verbatim>\<open>typeof\<close> of a number and whether it is zero. A request body is an object (the
  body parser hands the handlers an empty object when a request has none).
\<close>

datatype json =
    JNull
  | JBool bool
  | JNum int
  | JStr string
  | JArr "json list"
  | JObj "(string \<times> json) list"

type_synonym obj = "(string \<times> json) list"

text \<open>Reading a property, \<^verbatim>\<open>o.k\<close>: \<open>None\<close> stands for \<^verbatim>\<open>undefined\<close>.\<close>

definition prop_of :: "obj \<Rightarrow> string \<Rightarrow> json option" where
  "prop_of ob k = map_of ob k"

text \<open>
  Copying the own properties of \<open>src\<close> onto \<open>target\<close>, which is what a spread
  \<^verbatim>\<open>...src\<close> inside an object literal does to the members written before it: a key
  already there keeps its place and takes the new value, a new key goes to the end. (The
  language lists member names that are array indices first; the entities here have no such
  members.)
\<close>

definition assign :: "obj \<Rightarrow> obj \<Rightarrow> obj" where
  "assign target src = fold (\<lambda>(k, v). AList.update k v) src target"

text \<open>
  An object whose members may be \<^verbatim>\<open>undefined\<close> (a constructor that stores its
  arguments as they come): serialisation drops those members.
\<close>

definition mk_obj :: "(string \<times> json option) list \<Rightarrow> obj" where
  "mk_obj ms = List.map_filter (\<lambda>(k, v). map_option (Pair k) v) ms"

text \<open>JavaScript's truthiness, \<^verbatim>\<open>typeof\<close> and \<^verbatim>\<open>Array.isArray\<close> on a property read.\<close>

fun truthy :: "json option \<Rightarrow> bool" where
  "truthy None = False"
| "truthy (Some JNull) = False"
| "truthy (Some (JBool b)) = b"
| "truthy (Some (JNum n)) = (n \<noteq> 0)"
| "truthy (Some (JStr s)) = (s \<noteq> [])"
| "truthy (Some (JArr xs)) = True"
| "truthy (Some (JObj ms)) = True"

fun typeof :: "json option \<Rightarrow> string" where
  "typeof None = ''undefined''"
| "typeof (Some JNull) = ''object''"
| "typeof (Some (JBool b)) = ''boolean''"
| "typeof (Some (JNum n)) = ''number''"
| "typeof (Some (JStr s)) = ''string''"
| "typeof (Some (JArr xs)) = ''object''"
| "typeof (Some (JObj ms)) = ''object''"

fun isArray :: "json option \<Rightarrow> bool" where
  "isArray (Some (JArr xs)) = True"
| "isArray _ = False"

section \<open>The persistent map of the platform\<close>

text \<open>
  \<^verbatim>\<open>StableBTreeMap\<close> is supplied by the hosting platform. The handlers use four of its
  operations: \<^verbatim>\<open>get\<close>, \<^verbatim>\<open>insert\<close>, \<^verbatim>\<open>remove\<close> (which hands back what it
  removed) and \<^verbatim>\<open>values\<close>. The model keeps
  the entries in an association list with one entry per key. A key is whatever the handler
  passes, so it is a JSON value; a path parameter is always a string. The order in which
  the platform enumerates its entries is the platform's own: the model fixes one
  enumeration (an overwritten key keeps its place, a new key goes last) and no result
  below depends on which one it is.
\<close>

type_synonym storage = "(json \<times> obj) list"

definition btree_get :: "storage \<Rightarrow> json \<Rightarrow> obj option" where
  "btree_get m k = map_of m k"

definition btree_insert :: "json \<Rightarrow> obj \<Rightarrow> storage \<Rightarrow> storage" where
  "btree_insert k v m = AList.update k v m"

definition btree_remove :: "json \<Rightarrow> storage \<Rightarrow> obj option \<times> storage" where
  "btree_remove k m = (map_of m k, AList.delete k m)"

definition btree_values :: "storage \<Rightarrow> obj list" where
  "btree_values m = map snd m"

text \<open>
  \<^verbatim>\<open>get\<close> and \<^verbatim>\<open>remove\<close> hand their result back as an \<^verbatim>\<open>Opt\<close> object, which is
  \<^verbatim>\<open>{Some: v}\<close> or \<^verbatim>\<open>{None: null}\<close>: revisions 1 and 3 test it with
  \<^verbatim>\<open>"None" in opt\<close> and read \<^verbatim>\<open>opt.Some\<close>. In the model the result is an
  \<open>option\<close>, and \<open>opt_json\<close> is the object itself where a handler uses it as a value.
\<close>

definition opt_json :: "obj option \<Rightarrow> json" where
  "opt_json r = (case r of None \<Rightarrow> JObj [(''None'', JNull)] | Some v \<Rightarrow> JObj [(''Some'', JObj v)])"

datatype collection = Doctors | Patients | Appointments | PatientRecords | Medications

record state =
  doctorsStorage :: storage
  patientsStorage :: storage
  appointmentsStorage :: storage
  patientRecordsStorage :: storage
  medicationsStorage :: storage

fun storage_of :: "collection \<Rightarrow> state \<Rightarrow> storage" where
  "storage_of Doctors st = doctorsStorage st"
| "storage_of Patients st = patientsStorage st"
| "storage_of Appointments st = appointmentsStorage st"
| "storage_of PatientRecords st = patientRecordsStorage st"
| "storage_of Medications st = medicationsStorage st"

fun put_storage :: "collection \<Rightarrow> storage \<Rightarrow> state \<Rightarrow> state" where
  "put_storage Doctors m st = st\<lparr>doctorsStorage := m\<rparr>"
| "put_storage Patients m st = st\<lparr>patientsStorage := m\<rparr>"
| "put_storage Appointments m st = st\<lparr>appointmentsStorage := m\<rparr>"
| "put_storage PatientRecords m st = st\<lparr>patientRecordsStorage := m\<rparr>"
| "put_storage Medications m st = st\<lparr>medicationsStorage := m\<rparr>"

definition empty_state :: state where
  "empty_state = \<lparr>doctorsStorage = [], patientsStorage = [], appointmentsStorage = [],
     patientRecordsStorage = [], medicationsStorage = []\<rparr>"

section \<open>Requests, responses and the environment of a request\<close>

text \<open>
  A request names the route it matches. \<open>uuid\<close> is what \<^verbatim>\<open>uuidv4()\<close> returns during
  the request and \<open>now\<close> is the serialised date that \<^verbatim>\<open>getCurrentDate()\<close> (or
  \<^verbatim>\<open>new Date()\<close>) returns. A query parameter is absent or a text. The handlers inspect
  the characters of a query parameter, so that text is given as the sequence of its UTF-16
  code units; every other text is only compared and concatenated.
\<close>

type_synonym units = "nat list"

text \<open>The code units of a text written in ASCII.\<close>

definition units :: "string \<Rightarrow> units" where
  "units s = map of_char s"


record env =
  uuid :: string
  now :: json

datatype request =
    Post collection obj
  | GetAll collection
  | GetById collection string
  | GetPages collection "units option" "units option"
  | Put collection string obj
  | Delete collection string
  | GetByPatient collection string
  | GetByDoctor collection string

text \<open>
  A response is a status code with a JSON document (\<^verbatim>\<open>res.json\<close>) or a text
  (\<^verbatim>\<open>res.send\<close>). \<open>Uncaught\<close> is the page the web framework itself sends, with status
  500, when a handler throws outside a \<^verbatim>\<open>try\<close>.
\<close>

datatype payload = Json json | Text string | Uncaught

record response =
  status :: nat
  payload :: payload

definition json_res :: "nat \<Rightarrow> json \<Rightarrow> response" where
  "json_res code j = \<lparr>status = code, payload = Json j\<rparr>"

definition send_res :: "nat \<Rightarrow> string \<Rightarrow> response" where
  "send_res code s = \<lparr>status = code, payload = Text s\<rparr>"

definition uncaught_res :: response where
  "uncaught_res = \<lparr>status = 500, payload = Uncaught\<rparr>"

section \<open>Revision 1: the first copy of the module (lines 1 to 239)\<close>

text \<open>
  Every \<^verbatim>\<open>POST\<close> handler of revision 1 has the same body: the object literal
  \<^verbatim>\<open>{id: uuidv4(), createdAt: getCurrentDate(), ...req.body}\<close>, stored under its own
  \<^verbatim>\<open>id\<close> and sent back with \<^verbatim>\<open>res.json\<close> (status 200). A key that is
  \<^verbatim>\<open>undefined\<close> cannot be encoded by the platform map: the call throws, and outside a
  \<^verbatim>\<open>try\<close> the framework answers for the handler. The literal always has an
  \<^verbatim>\<open>id\<close>, so a create request never takes that branch; an update takes it only for a
  stored object without \<^verbatim>\<open>id\<close>, which no handler ever stores.
\<close>

definition post1 :: "collection \<Rightarrow> env \<Rightarrow> obj \<Rightarrow> state \<Rightarrow> response \<times> state" where
  "post1 c e body st =
     (let entity = assign [(''id'', JStr (uuid e)), (''createdAt'', now e)] body in
      case prop_of entity ''id'' of
        None \<Rightarrow> (uncaught_res, st)
      | Some k \<Rightarrow>
          (json_res 200 (JObj entity),
           put_storage c (btree_insert k entity (storage_of c st)) st))"

definition get_all1 :: "collection \<Rightarrow> state \<Rightarrow> response \<times> state" where
  "get_all1 c st = (json_res 200 (JArr (map JObj (btree_values (storage_of c st)))), st)"

definition get_appointment1 :: "string \<Rightarrow> state \<Rightarrow> response \<times> state" where
  "get_appointment1 appointmentId st =
     (case btree_get (appointmentsStorage st) (JStr appointmentId) of
        None \<Rightarrow>
          (send_res 404 (''the appointment with id='' @ appointmentId @ '' not found''), st)
      | Some appointment \<Rightarrow> (json_res 200 (JObj appointment), st))"

definition put_appointment1 :: "env \<Rightarrow> string \<Rightarrow> obj \<Rightarrow> state \<Rightarrow> response \<times> state" where
  "put_appointment1 e appointmentId body st =
     (case btree_get (appointmentsStorage st) (JStr appointmentId) of
        None \<Rightarrow>
          (send_res 400 (''couldn't update an appointment with id='' @ appointmentId
             @ ''. appointment not found''), st)
      | Some appointment \<Rightarrow>
          (let updatedAppointment =
                 assign (assign (assign [] appointment) body) [(''updatedAt'', now e)] in
           case prop_of appointment ''id'' of
             None \<Rightarrow> (uncaught_res, st)
           | Some k \<Rightarrow>
               (json_res 200 (JObj updatedAppointment),
                st\<lparr>appointmentsStorage :=
                     btree_insert k updatedAppointment (appointmentsStorage st)\<rparr>)))"

definition delete_appointment1 :: "string \<Rightarrow> state \<Rightarrow> response \<times> state" where
  "delete_appointment1 appointmentId st =
     (let (deletedAppointment, m) = btree_remove (JStr appointmentId) (appointmentsStorage st);
          st' = st\<lparr>appointmentsStorage := m\<rparr> in
      case deletedAppointment of
        None \<Rightarrow>
          (send_res 400 (''couldn't delete an appointment with id='' @ appointmentId
             @ ''. appointment not found''), st')
      | Some appointment \<Rightarrow> (json_res 200 (JObj appointment), st'))"

text \<open>
  The filter routes: \<^verbatim>\<open>values().filter((record) => record.patientId === patientId)\<close>,
  and the same with \<^verbatim>\<open>doctorId\<close>. The path parameter is a string, so \<^verbatim>\<open>===\<close>
  holds exactly for a member that is that string.
\<close>

definition filter_by :: "string \<Rightarrow> string \<Rightarrow> collection \<Rightarrow> state \<Rightarrow> response \<times> state" where
  "filter_by key ident c st =
     (json_res 200 (JArr (map JObj
        (filter (\<lambda>record. prop_of record key = Some (JStr ident))
           (btree_values (storage_of c st))))), st)"

fun handle1 :: "env \<Rightarrow> request \<Rightarrow> state \<Rightarrow> (response \<times> state) option" where
  "handle1 e (Post c body) st = Some (post1 c e body st)"
| "handle1 e (GetAll c) st = Some (get_all1 c st)"
| "handle1 e (GetById Appointments ident) st = Some (get_appointment1 ident st)"
| "handle1 e (Put Appointments ident body) st = Some (put_appointment1 e ident body st)"
| "handle1 e (Delete Appointments ident) st = Some (delete_appointment1 ident st)"
| "handle1 e (GetByPatient PatientRecords ident) st =
     Some (filter_by ''patientId'' ident PatientRecords st)"
| "handle1 e (GetByDoctor PatientRecords ident) st =
     Some (filter_by ''doctorId'' ident PatientRecords st)"
| "handle1 e (GetByPatient Medications ident) st =
     Some (filter_by ''patientId'' ident Medications st)"
| "handle1 e _ st = None"

section \<open>Revision 2: the second copy of the module (lines 240 to 489)\<close>

text \<open>
  Revision 2 builds every entity with a class constructor from fields destructured out of
  the body: the constructor draws the \<^verbatim>\<open>id\<close> and the creation date itself and stores
  its arguments as they come (an absent field stays \<^verbatim>\<open>undefined\<close>). \<open>newDate\<close> is
  \<^verbatim>\<open>new Date(dateTime)\<close> in serialised form, a function of the language runtime that
  the model takes as a parameter. Revision 2 tests the object that \<^verbatim>\<open>get\<close> and
  \<^verbatim>\<open>remove\<close> return for truthiness, \<^verbatim>\<open>if (appointment)\<close>, and sends that object
  itself. An object is truthy whatever it holds, so the branch that answers 404 is never
  taken.
\<close>

fun construct2 :: "(json option \<Rightarrow> json) \<Rightarrow> collection \<Rightarrow> env \<Rightarrow> obj \<Rightarrow> obj" where
  "construct2 newDate Doctors e body =
     mk_obj [(''id'', Some (JStr (uuid e))), (''name'', prop_of body ''name''),
             (''specialty'', prop_of body ''specialty''), (''createdAt'', Some (now e))]"
| "construct2 newDate Patients e body =
     mk_obj [(''id'', Some (JStr (uuid e))), (''name'', prop_of body ''name''),
             (''age'', prop_of body ''age''), (''gender'', prop_of body ''gender''),
             (''createdAt'', Some (now e))]"
| "construct2 newDate Appointments e body =
     mk_obj [(''id'', Some (JStr (uuid e))), (''patientId'', prop_of body ''patientId''),
             (''doctorId'', prop_of body ''doctorId''),
             (''dateTime'', Some (newDate (prop_of body ''dateTime''))),
             (''duration'', prop_of body ''duration''),
             (''description'', prop_of body ''description''),
             (''createdAt'', Some (now e)), (''updatedAt'', Some JNull)]"
| "construct2 newDate PatientRecords e body =
     mk_obj [(''id'', Some (JStr (uuid e))), (''patientId'', prop_of body ''patientId''),
             (''doctorId'', prop_of body ''doctorId''),
             (''diagnosis'', prop_of body ''diagnosis''),
             (''treatment'', prop_of body ''treatment''),
             (''medications'', prop_of body ''medications''),
             (''createdAt'', Some (now e))]"
| "construct2 newDate Medications e body =
     mk_obj [(''id'', Some (JStr (uuid e))), (''name'', prop_of body ''name''),
             (''dosage'', prop_of body ''dosage''),
             (''frequency'', prop_of body ''frequency''),
             (''patientId'', prop_of body ''patientId''), (''createdAt'', Some (now e))]"

definition post2 ::
  "(json option \<Rightarrow> json) \<Rightarrow> collection \<Rightarrow> env \<Rightarrow> obj \<Rightarrow> state \<Rightarrow> response \<times> state" where
  "post2 newDate c e body st =
     (let entity = construct2 newDate c e body in
      (json_res 200 (JObj entity),
       put_storage c (btree_insert (JStr (uuid e)) entity (storage_of c st)) st))"

definition not_found2 :: "string \<Rightarrow> response" where
  "not_found2 appointmentId =
     send_res 404 (''Appointment with ID '' @ appointmentId @ '' not found'')"

definition get_appointment2 :: "string \<Rightarrow> state \<Rightarrow> response \<times> state" where
  "get_appointment2 appointmentId st =
     (let appointment = opt_json (btree_get (appointmentsStorage st) (JStr appointmentId)) in
      if truthy (Some appointment) then (json_res 200 appointment, st)
      else (not_found2 appointmentId, st))"

definition put_appointment2 ::
  "(json option \<Rightarrow> json) \<Rightarrow> env \<Rightarrow> string \<Rightarrow> obj \<Rightarrow> state \<Rightarrow> response \<times> state" where
  "put_appointment2 newDate e appointmentId body st =
     (let appointment = opt_json (btree_get (appointmentsStorage st) (JStr appointmentId)) in
      if truthy (Some appointment) then
        (let updatedAppointment =
               assign (construct2 newDate Appointments e body) [(''updatedAt'', now e)] in
         (json_res 200 (JObj updatedAppointment),
          st\<lparr>appointmentsStorage :=
               btree_insert (JStr appointmentId) updatedAppointment
                 (appointmentsStorage st)\<rparr>))
      else (not_found2 appointmentId, st))"

definition delete_appointment2 :: "string \<Rightarrow> state \<Rightarrow> response \<times> state" where
  "delete_appointment2 appointmentId st =
     (let (removed, m) = btree_remove (JStr appointmentId) (appointmentsStorage st);
          appointment = opt_json removed;
          st' = st\<lparr>appointmentsStorage := m\<rparr> in
      if truthy (Some appointment) then (json_res 200 appointment, st')
      else (not_found2 appointmentId, st'))"

text \<open>The list and filter routes of revision 2 are those of revision 1, word for word.\<close>

fun handle2 ::
  "(json option \<Rightarrow> json) \<Rightarrow> env \<Rightarrow> request \<Rightarrow> state \<Rightarrow> (response \<times> state) option" where
  "handle2 newDate e (Post c body) st = Some (post2 newDate c e body st)"
| "handle2 newDate e (GetAll c) st = Some (get_all1 c st)"
| "handle2 newDate e (GetById Appointments ident) st = Some (get_appointment2 ident st)"
| "handle2 newDate e (Put Appointments ident body) st =
     Some (put_appointment2 newDate e ident body st)"
| "handle2 newDate e (Delete Appointments ident) st = Some (delete_appointment2 ident st)"
| "handle2 newDate e (GetByPatient PatientRecords ident) st =
     Some (filter_by ''patientId'' ident PatientRecords st)"
| "handle2 newDate e (GetByDoctor PatientRecords ident) st =
     Some (filter_by ''doctorId'' ident PatientRecords st)"
| "handle2 newDate e (GetByPatient Medications ident) st =
     Some (filter_by ''patientId'' ident Medications st)"
| "handle2 newDate e _ st = None"

section \<open>Revision 3: the third copy of the module (lines 490 to 1306)\<close>

subsection \<open>The words that differ from one entity to the next\<close>

fun singular :: "collection \<Rightarrow> string" where
  "singular Doctors = ''Doctor''"
| "singular Patients = ''Patient''"
| "singular Appointments = ''Appointment''"
| "singular PatientRecords = ''Patient record''"
| "singular Medications = ''Medication''"

fun plural :: "collection \<Rightarrow> string" where
  "plural Doctors = ''Doctors''"
| "plural Patients = ''Patients''"
| "plural Appointments = ''Appointments''"
| "plural PatientRecords = ''Patient records''"
| "plural Medications = ''Medications''"

fun lower :: "collection \<Rightarrow> string" where
  "lower Doctors = ''doctor''"
| "lower Patients = ''patient''"
| "lower Appointments = ''appointment''"
| "lower PatientRecords = ''patient record''"
| "lower Medications = ''medication''"

fun member_one :: "collection \<Rightarrow> string" where
  "member_one Doctors = ''doctor''"
| "member_one Patients = ''patient''"
| "member_one Appointments = ''appointment''"
| "member_one PatientRecords = ''patientRecord''"
| "member_one Medications = ''medication''"

fun member_all :: "collection \<Rightarrow> string" where
  "member_all Doctors = ''doctors''"
| "member_all Patients = ''patients''"
| "member_all Appointments = ''appointments''"
| "member_all PatientRecords = ''patientRecords''"
| "member_all Medications = ''medications''"

fun post_error3 :: "collection \<Rightarrow> string" where
  "post_error3 Doctors =
     ''Invalid input: Ensure 'name' and 'speciality' are provided and are strings.''"
| "post_error3 Patients =
     ''Invalid input: Ensure 'name' is a string, 'age' is a number and 'gender' is a string.''"
| "post_error3 Appointments =
     ''Invalid input: Ensure 'patientId', 'doctorId', 'dateTime', 'duration' and 'description' are provided and are of the correct type.''"
| "post_error3 PatientRecords =
     ''Invalid input: Ensure 'patientId', 'doctorId', 'diagnosis', 'treatment' and 'medications' are provided and are of the correct type.''"
| "post_error3 Medications =
     ''Invalid input: Ensure 'name', 'dosage', 'frequency' and 'patientId' are provided and are of the correct type.''"

fun put_error3 :: "collection \<Rightarrow> string" where
  "put_error3 Patients =
     ''Invalid input: Ensure 'name' is a string, 'age' is a number and gender is a string.''"
| "put_error3 c = post_error3 c"

subsection \<open>Validation of a payload\<close>

text \<open>
  The tests the handlers write for one field:
  \<^verbatim>\<open>!req.body.f || typeof req.body.f !== "string"\<close>, the same with
  \<^verbatim>\<open>"number"\<close>, and \<^verbatim>\<open>!req.body.f || !Array.isArray(req.body.f)\<close>.
\<close>

definition not_string :: "obj \<Rightarrow> string \<Rightarrow> bool" where
  "not_string body f = (\<not> truthy (prop_of body f) \<or> typeof (prop_of body f) \<noteq> ''string'')"

definition not_number :: "obj \<Rightarrow> string \<Rightarrow> bool" where
  "not_number body f = (\<not> truthy (prop_of body f) \<or> typeof (prop_of body f) \<noteq> ''number'')"

definition not_array :: "obj \<Rightarrow> string \<Rightarrow> bool" where
  "not_array body f = (\<not> truthy (prop_of body f) \<or> \<not> isArray (prop_of body f))"

fun invalid3 :: "collection \<Rightarrow> obj \<Rightarrow> bool" where
  "invalid3 Doctors body = (not_string body ''name'' \<or> not_string body ''speciality'')"
| "invalid3 Patients body =
     (not_string body ''name'' \<or> not_number body ''age'' \<or> not_string body ''gender'')"
| "invalid3 Appointments body =
     (not_string body ''patientId'' \<or> not_string body ''doctorId''
      \<or> not_string body ''dateTime'' \<or> not_number body ''duration''
      \<or> not_string body ''description'')"
| "invalid3 PatientRecords body =
     (not_string body ''patientId'' \<or> not_string body ''doctorId''
      \<or> not_string body ''diagnosis'' \<or> not_string body ''treatment''
      \<or> not_array body ''medications'')"
| "invalid3 Medications body =
     (not_string body ''name'' \<or> not_string body ''dosage''
      \<or> not_string body ''frequency'' \<or> not_string body ''patientId'')"

subsection \<open>Create, list, fetch, update, delete\<close>

text \<open>
  A doctor is built by the class constructor from the two validated fields; the other four
  entities are the object literal \<^verbatim>\<open>{id: uuidv4(), createdAt: getCurrentDate(), ...req.body}\<close>.
\<close>

fun construct3 :: "collection \<Rightarrow> env \<Rightarrow> obj \<Rightarrow> obj" where
  "construct3 Doctors e body =
     mk_obj [(''id'', Some (JStr (uuid e))), (''name'', prop_of body ''name''),
             (''speciality'', prop_of body ''speciality''), (''createdAt'', Some (now e))]"
| "construct3 c e body = assign [(''id'', JStr (uuid e)), (''createdAt'', now e)] body"

definition post3 :: "collection \<Rightarrow> env \<Rightarrow> obj \<Rightarrow> state \<Rightarrow> response \<times> state" where
  "post3 c e body st =
     (if invalid3 c body then
        (json_res 400 (JObj [(''status'', JNum 400), (''error'', JStr (post_error3 c))]), st)
      else
        (let entity = construct3 c e body in
         case prop_of entity ''id'' of
           None \<Rightarrow>
             (json_res 500 (JObj [(''error'',
                JStr (''An error occurred while creating a new '' @ lower c @ ''.''))]), st)
         | Some k \<Rightarrow>
             (json_res 201 (JObj [(''status'', JNum 201),
                (''message'', JStr (singular c @ '' created successfully'')),
                (member_one c, JObj entity)]),
              put_storage c (btree_insert k entity (storage_of c st)) st)))"

definition get_all3 :: "collection \<Rightarrow> state \<Rightarrow> response \<times> state" where
  "get_all3 c st =
     (json_res 200 (JObj [(''status'', JNum 200),
        (''message'', JStr (plural c @ '' retrieved successfully'')),
        (member_all c, JArr (map JObj (btree_values (storage_of c st))))]), st)"

definition not_found3 :: "collection \<Rightarrow> string \<Rightarrow> response" where
  "not_found3 c ident =
     json_res 404 (JObj [(''status'', JNum 404),
       (''message'', JStr (singular c @ '' with id = '' @ ident @ '' not found''))])"

definition get_by_id3 :: "collection \<Rightarrow> string \<Rightarrow> state \<Rightarrow> response \<times> state" where
  "get_by_id3 c ident st =
     (case btree_get (storage_of c st) (JStr ident) of
        None \<Rightarrow> (not_found3 c ident, st)
      | Some entity \<Rightarrow>
          (json_res 200 (JObj [(''status'', JNum 200),
             (''message'', JStr (singular c @ '' retrieved successfully'')),
             (member_one c, JObj entity)]), st))"

definition put3 :: "collection \<Rightarrow> env \<Rightarrow> string \<Rightarrow> obj \<Rightarrow> state \<Rightarrow> response \<times> state" where
  "put3 c e ident body st =
     (if invalid3 c body then
        (json_res 400 (JObj [(''error'', JStr (put_error3 c))]), st)
      else
        (case btree_get (storage_of c st) (JStr ident) of
           None \<Rightarrow> (not_found3 c ident, st)
         | Some entity \<Rightarrow>
             (let updated = assign (assign (assign [] entity) body) [(''updatedAt'', now e)] in
              case prop_of entity ''id'' of
                None \<Rightarrow> (uncaught_res, st)
              | Some k \<Rightarrow>
                  (json_res 200 (JObj [(''status'', JNum 200),
                     (''message'', JStr (singular c @ '' updated successfully'')),
                     (member_one c, JObj updated)]),
                   put_storage c (btree_insert k updated (storage_of c st)) st))))"

definition delete3 :: "collection \<Rightarrow> string \<Rightarrow> state \<Rightarrow> response \<times> state" where
  "delete3 c ident st =
     (let (deleted, m) = btree_remove (JStr ident) (storage_of c st);
          st' = put_storage c m st in
      case deleted of
        None \<Rightarrow> (not_found3 c ident, st')
      | Some entity \<Rightarrow>
          (json_res 200 (JObj [(''status'', JNum 200),
             (''message'', JStr (singular c @ '' deleted successfully'')),
             (member_one c, JObj entity)]), st'))"

text \<open>
  The three routes named after a patient or a doctor look the path parameter up as a key
  of the collection: \<^verbatim>\<open>patientRecordsStorage.get(doctorId)\<close>.
\<close>

definition get_for3 :: "string \<Rightarrow> collection \<Rightarrow> string \<Rightarrow> state \<Rightarrow> response \<times> state" where
  "get_for3 who c ident st =
     (case btree_get (storage_of c st) (JStr ident) of
        None \<Rightarrow>
          (json_res 404 (JObj [(''status'', JNum 404),
             (''message'', JStr (plural c @ '' for '' @ who @ '' with id = '' @ ident
                @ '' not found''))]), st)
      | Some entity \<Rightarrow>
          (json_res 200 (JObj [(''status'', JNum 200),
             (''message'', JStr (plural c @ '' retrieved successfully'')),
             (member_all c, JObj entity)]), st))"

subsection \<open>Pagination\<close>

text \<open>
  \<^verbatim>\<open>parseInt\<close> with no radix, as the language standard defines it: leading white space
  is skipped, a sign is read, a prefix \<^verbatim>\<open>0x\<close> or \<^verbatim>\<open>0X\<close> switches to radix 16, and
  the longest run of digits is the number; no digit at all gives \<^verbatim>\<open>NaN\<close>, which is
  \<open>None\<close> here. White space is the standard's list: tab, line feed, vertical tab, form
  feed, carriage return, space, no-break space, the other space separators of Unicode
  (U+1680, U+2000 to U+200A, U+202F, U+205F, U+3000), the line and paragraph separators
  (U+2028, U+2029) and the byte order mark (U+FEFF). The result is an exact integer where
  the language rounds to a double.
\<close>

definition is_space :: "nat \<Rightarrow> bool" where
  "is_space u =
     (u \<in> {9, 10, 11, 12, 13, 32, 160, 5760, 8232, 8233, 8239, 8287, 12288, 65279}
      \<or> (8192 \<le> u \<and> u \<le> 8202))"

definition digit_val :: "nat \<Rightarrow> nat" where
  "digit_val u =
     (if 48 \<le> u \<and> u \<le> 57 then u - 48
      else if 97 \<le> u \<and> u \<le> 122 then u - 87
      else if 65 \<le> u \<and> u \<le> 90 then u - 55
      else 36)"

definition parseInt :: "units \<Rightarrow> int option" where
  "parseInt inputString =
     (let s1 = dropWhile is_space inputString;
          negative = (take 1 s1 = units ''-'');
          s2 = (if take 1 s1 = units ''+'' \<or> take 1 s1 = units ''-'' then drop 1 s1 else s1);
          hex = (take 2 s2 = units ''0x'' \<or> take 2 s2 = units ''0X'');
          radix = (if hex then 16 else 10);
          s3 = (if hex then drop 2 s2 else s2);
          z = takeWhile (\<lambda>u. digit_val u < radix) s3;
          mathInt = int (foldl (\<lambda>acc u. acc * radix + digit_val u) 0 z)
      in if z = [] then None else Some (if negative then - mathInt else mathInt))"

text \<open>
  \<^verbatim>\<open>parseInt(req.query.p as string) || d\<close>: an absent parameter is \<^verbatim>\<open>undefined\<close>,
  which \<^verbatim>\<open>parseInt\<close> reads as the text \<^verbatim>\<open>undefined\<close>; \<^verbatim>\<open>NaN\<close> and zero are falsy.
\<close>

definition query_int :: "units option \<Rightarrow> int \<Rightarrow> int" where
  "query_int q d =
     (case parseInt (case q of None \<Rightarrow> units ''undefined'' | Some s \<Rightarrow> s) of
        None \<Rightarrow> d
      | Some n \<Rightarrow> if n = 0 then d else n)"

text \<open>
  \<^verbatim>\<open>Array.prototype.slice(start, end)\<close>: a negative index counts from the end, and
  both are clamped to the array.
\<close>

definition slice :: "'a list \<Rightarrow> int \<Rightarrow> int \<Rightarrow> 'a list" where
  "slice xs start fin =
     (let len = int (length xs);
          k = (if start < 0 then max (len + start) 0 else min start len);
          final = (if fin < 0 then max (len + fin) 0 else min fin len)
      in take (nat (final - k)) (drop (nat k) xs))"

definition paginate3 ::
  "collection \<Rightarrow> units option \<Rightarrow> units option \<Rightarrow> state \<Rightarrow> response \<times> state" where
  "paginate3 c qpage qlimit st =
     (let page = query_int qpage 1;
          limit = query_int qlimit 10;
          startIndex = (page - 1) * limit;
          endIndex = page * limit;
          results = slice (btree_values (storage_of c st)) startIndex endIndex
      in (json_res 200 (JArr (map JObj results)), st))"

subsection \<open>The routes of revision 3\<close>

fun handle3 :: "env \<Rightarrow> request \<Rightarrow> state \<Rightarrow> (response \<times> state) option" where
  "handle3 e (Post c body) st = Some (post3 c e body st)"
| "handle3 e (GetAll c) st = Some (get_all3 c st)"
| "handle3 e (GetPages c qpage qlimit) st = Some (paginate3 c qpage qlimit st)"
| "handle3 e (GetById Doctors ident) st = Some (get_by_id3 Doctors ident st)"
| "handle3 e (GetById Patients ident) st = Some (get_by_id3 Patients ident st)"
| "handle3 e (GetById Appointments ident) st = Some (get_by_id3 Appointments ident st)"
| "handle3 e (Put Medications ident body) st = None"
| "handle3 e (Put c ident body) st = Some (put3 c e ident body st)"
| "handle3 e (Delete Medications ident) st = None"
| "handle3 e (Delete c ident) st = Some (delete3 c ident st)"
| "handle3 e (GetByDoctor PatientRecords ident) st =
     Some (get_for3 ''doctor'' PatientRecords ident st)"
| "handle3 e (GetByPatient PatientRecords ident) st =
     Some (get_for3 ''patient'' PatientRecords ident st)"
| "handle3 e (GetByPatient Medications ident) st =
     Some (get_for3 ''patient'' Medications ident st)"
| "handle3 e _ st = None"

section \<open>Sequences of requests\<close>

text \<open>
  Requests are served one after the other, each with its own environment. A request that
  matches no route leaves the state as it is.
\<close>

definition after :: "(response \<times> state) option \<Rightarrow> state \<Rightarrow> state" where
  "after r st = (case r of None \<Rightarrow> st | Some (_, st') \<Rightarrow> st')"

fun run1 :: "(env \<times> request) list \<Rightarrow> state \<Rightarrow> state" where
  "run1 [] st = st"
| "run1 ((e, rq) # rs) st = run1 rs (after (handle1 e rq st) st)"

fun run2 :: "(json option \<Rightarrow> json) \<Rightarrow> (env \<times> request) list \<Rightarrow> state \<Rightarrow> state" where
  "run2 newDate [] st = st"
| "run2 newDate ((e, rq) # rs) st = run2 newDate rs (after (handle2 newDate e rq st) st)"

fun run3 :: "(env \<times> request) list \<Rightarrow> state \<Rightarrow> state" where
  "run3 [] st = st"
| "run3 ((e, rq) # rs) st = run3 rs (after (handle3 e rq st) st)"

section \<open>Notions used to state the properties\<close>

text \<open>The collection whose map a route reads or writes.\<close>

fun target :: "request \<Rightarrow> collection" where
  "target (Post c body) = c"
| "target (GetAll c) = c"
| "target (GetById c ident) = c"
| "target (GetPages c qpage qlimit) = c"
| "target (Put c ident body) = c"
| "target (Delete c ident) = c"
| "target (GetByPatient c ident) = c"
| "target (GetByDoctor c ident) = c"

text \<open>
  The required fields of a payload and their types, as the class declarations and the
  messages of the validating revision name them (a date travels as a string). A payload is
  ill-formed when a required field is missing or has another type.
\<close>

datatype ftype = FString | FNumber | FArray

fun has_type :: "ftype \<Rightarrow> json option \<Rightarrow> bool" where
  "has_type FString (Some (JStr s)) = True"
| "has_type FNumber (Some (JNum n)) = True"
| "has_type FArray (Some (JArr xs)) = True"
| "has_type t v = False"

fun required :: "collection \<Rightarrow> (string \<times> ftype) list" where
  "required Doctors = [(''name'', FString), (''speciality'', FString)]"
| "required Patients = [(''name'', FString), (''age'', FNumber), (''gender'', FString)]"
| "required Appointments =
     [(''patientId'', FString), (''doctorId'', FString), (''dateTime'', FString),
      (''duration'', FNumber), (''description'', FString)]"
| "required PatientRecords =
     [(''patientId'', FString), (''doctorId'', FString), (''diagnosis'', FString),
      (''treatment'', FString), (''medications'', FArray)]"
| "required Medications =
     [(''name'', FString), (''dosage'', FString), (''frequency'', FString),
      (''patientId'', FString)]"

definition ill_formed :: "collection \<Rightarrow> obj \<Rightarrow> bool" where
  "ill_formed c body = list_ex (\<lambda>(f, t). \<not> has_type t (prop_of body f)) (required c)"

text \<open>
  The envelopes in which revision 3 sends an entity it created or fetched, and the list of
  a collection.
\<close>

definition created3 :: "collection \<Rightarrow> obj \<Rightarrow> response" where
  "created3 c entity =
     \<lparr>status = 201, payload = Json (JObj [(''status'', JNum 201),
        (''message'', JStr (singular c @ '' created successfully'')),
        (member_one c, JObj entity)])\<rparr>"

definition found3 :: "collection \<Rightarrow> obj \<Rightarrow> response" where
  "found3 c entity =
     \<lparr>status = 200, payload = Json (JObj [(''status'', JNum 200),
        (''message'', JStr (singular c @ '' retrieved successfully'')),
        (member_one c, JObj entity)])\<rparr>"

definition listed3 :: "collection \<Rightarrow> obj list \<Rightarrow> response" where
  "listed3 c entities =
     \<lparr>status = 200, payload = Json (JObj [(''status'', JNum 200),
        (''message'', JStr (plural c @ '' retrieved successfully'')),
        (member_all c, JArr (map JObj entities))])\<rparr>"

text \<open>Every entry of a map is stored under the \<^verbatim>\<open>id\<close> it carries.\<close>

definition keyed_by_id :: "storage \<Rightarrow> bool" where
  "keyed_by_id m = list_all (\<lambda>(k, entity). prop_of entity ''id'' = Some k) m"

definition ids_match :: "state \<Rightarrow> bool" where
  "ids_match st =
     list_all (\<lambda>c. keyed_by_id (storage_of c st))
       [Doctors, Patients, Appointments, PatientRecords, Medications]"

text \<open>The decimal numeral of a natural number, as a client writes a page number.\<close>

fun decimal :: "nat \<Rightarrow> units" where
  "decimal n = (if 10 \<le> n then decimal (n div 10) else []) @ [n mod 10 + 48]"

declare decimal.simps [simp del]

text \<open>
  A query parameter that is absent, that \<^verbatim>\<open>parseInt\<close> does not read as a number, or
  that it reads as zero.
\<close>

definition defaulted :: "units option \<Rightarrow> bool" where
  "defaulted q = (case q of None \<Rightarrow> True | Some s \<Rightarrow> parseInt s = None \<or> parseInt s = Some 0)"

section \<open>Properties\<close>

subsection \<open>Facts about the state and the platform map\<close>

lemma put_storage_same: "put_storage c (storage_of c st) st = st"
  by (cases c) simp_all

lemma btree_remove_absent:
  "btree_get m k = None \<Longrightarrow> btree_remove k m = (None, m)"
  by (simp add: btree_get_def btree_remove_def map_of_eq_None_iff)

lemma get_by_id3_absent:
  "btree_get (storage_of c st) (JStr ident) = None \<Longrightarrow>
   get_by_id3 c ident st = (not_found3 c ident, st)"
  by (simp add: get_by_id3_def)

lemma delete3_absent:
  "btree_get (storage_of c st) (JStr ident) = None \<Longrightarrow>
   delete3 c ident st = (not_found3 c ident, st)"
  by (simp add: delete3_def btree_remove_absent put_storage_same)

lemma put3_absent:
  "btree_get (storage_of c st) (JStr ident) = None \<Longrightarrow>
   put3 c e ident body st =
     (if invalid3 c body then json_res 400 (JObj [(''error'', JStr (put_error3 c))])
      else not_found3 c ident, st)"
  by (simp add: put3_def)

lemma delete_appointment1_absent:
  "btree_get (appointmentsStorage st) (JStr ident) = None \<Longrightarrow>
   delete_appointment1 ident st =
     (send_res 400 (''couldn't delete an appointment with id='' @ ident
        @ ''. appointment not found''), st)"
  by (simp add: delete_appointment1_def btree_remove_absent)

subsection \<open>Requests for an id that is not stored\<close>

text \<open>
  C1, as the claim states it, fails: an update in revision 3 validates the payload before it
  looks the id up, so an id that is not stored together with a payload that fails
  validation is answered with status 400.
\<close>

theorem put_invalid_body_absent_id_is_400:
  "btree_get (storage_of Doctors empty_state) (JStr ''nobody'') = None
   \<and> handle3 \<lparr>uuid = ''u1'', now = JStr ''t''\<rparr> (Put Doctors ''nobody'' []) empty_state =
       Some (\<lparr>status = 400, payload = Json (JObj [(''error'',
         JStr ''Invalid input: Ensure 'name' and 'speciality' are provided and are strings.'')])\<rparr>,
         empty_state)"
  by (simp add: btree_get_def empty_state_def put3_def not_string_def prop_of_def json_res_def)

text \<open>
  C1, amended. Let \<open>ident\<close> be no key of the addressed collection. In revision 3 every
  registered \<^verbatim>\<open>GET /:id\<close> and \<^verbatim>\<open>DELETE /:id\<close> answers status 404 with a not-found
  message and leaves the state as it is, and so does \<^verbatim>\<open>GET /:id\<close> of revision 1. A
  \<^verbatim>\<open>PUT /:id\<close> of revision 3 answers 400 when the payload fails validation and 404 with
  the not-found message otherwise, and leaves the state as it is. \<^verbatim>\<open>PUT\<close> and
  \<^verbatim>\<open>DELETE\<close> of revision 1 send their not-found text and leave the state unchanged;
  their status code is not part of this statement, and neither is revision 2, whose test
  of the \<^verbatim>\<open>Opt\<close> object never reaches its not-found branch.
\<close>

theorem absent_id_not_found:
  assumes absent: "btree_get (storage_of c st) (JStr ident) = None"
  shows
    "(c \<in> {Doctors, Patients, Appointments} \<longrightarrow>
        handle3 e (GetById c ident) st =
          Some (\<lparr>status = 404, payload = Json (JObj [(''status'', JNum 404),
            (''message'', JStr (singular c @ '' with id = '' @ ident @ '' not found''))])\<rparr>, st))
   \<and> (c \<noteq> Medications \<longrightarrow>
        handle3 e (Delete c ident) st =
          Some (\<lparr>status = 404, payload = Json (JObj [(''status'', JNum 404),
            (''message'', JStr (singular c @ '' with id = '' @ ident @ '' not found''))])\<rparr>, st))
   \<and> (c \<noteq> Medications \<longrightarrow>
        handle3 e (Put c ident body) st =
          Some (if invalid3 c body
                then \<lparr>status = 400, payload = Json (JObj [(''error'', JStr (put_error3 c))])\<rparr>
                else \<lparr>status = 404, payload = Json (JObj [(''status'', JNum 404),
                  (''message'', JStr (singular c @ '' with id = '' @ ident @ '' not found''))])\<rparr>,
                st))
   \<and> (c = Appointments \<longrightarrow>
        handle1 e (GetById c ident) st =
          Some (\<lparr>status = 404,
            payload = Text (''the appointment with id='' @ ident @ '' not found'')\<rparr>, st)
      \<and> (\<exists>code. handle1 e (Put c ident body) st =
          Some (\<lparr>status = code,
            payload = Text (''couldn't update an appointment with id='' @ ident
              @ ''. appointment not found'')\<rparr>, st))
      \<and> (\<exists>code. handle1 e (Delete c ident) st =
          Some (\<lparr>status = code,
            payload = Text (''couldn't delete an appointment with id='' @ ident
              @ ''. appointment not found'')\<rparr>, st)))"
proof -
  have g3: "c \<in> {Doctors, Patients, Appointments} \<Longrightarrow>
      handle3 e (GetById c ident) st = Some (not_found3 c ident, st)"
    using get_by_id3_absent [OF absent] by auto
  have d3: "c \<noteq> Medications \<Longrightarrow>
      handle3 e (Delete c ident) st = Some (not_found3 c ident, st)"
    using delete3_absent [OF absent] by (cases c) simp_all
  have p3: "c \<noteq> Medications \<Longrightarrow>
      handle3 e (Put c ident body) st =
        Some (if invalid3 c body then json_res 400 (JObj [(''error'', JStr (put_error3 c))])
              else not_found3 c ident, st)"
    using put3_absent [OF absent, of e body] by (cases c) simp_all
  have a: "c = Appointments \<Longrightarrow> btree_get (appointmentsStorage st) (JStr ident) = None"
    using absent by simp
  have r1: "c = Appointments \<Longrightarrow>
      handle1 e (GetById c ident) st =
        Some (send_res 404 (''the appointment with id='' @ ident @ '' not found''), st)
    \<and> handle1 e (Put c ident body) st =
        Some (send_res 400 (''couldn't update an appointment with id='' @ ident
              @ ''. appointment not found''), st)
    \<and> handle1 e (Delete c ident) st =
        Some (send_res 400 (''couldn't delete an appointment with id='' @ ident
              @ ''. appointment not found''), st)"
    using a by (simp add: get_appointment1_def put_appointment1_def delete_appointment1_absent)
  show ?thesis
    using g3 d3 p3 r1 by (simp add: not_found3_def json_res_def send_res_def)
qed

theorem absent_id_not_found_witness:
  "btree_get (storage_of Appointments empty_state) (JStr ''a1'') = None
   \<and> handle3 \<lparr>uuid = ''u1'', now = JStr ''t''\<rparr> (GetById Appointments ''a1'') empty_state =
       Some (\<lparr>status = 404, payload = Json (JObj [(''status'', JNum 404),
         (''message'', JStr ''Appointment with id = a1 not found'')])\<rparr>, empty_state)
   \<and> handle3 \<lparr>uuid = ''u1'', now = JStr ''t''\<rparr> (Delete Appointments ''a1'') empty_state =
       Some (\<lparr>status = 404, payload = Json (JObj [(''status'', JNum 404),
         (''message'', JStr ''Appointment with id = a1 not found'')])\<rparr>, empty_state)
   \<and> handle3 \<lparr>uuid = ''u1'', now = JStr ''t''\<rparr>
         (Put Appointments ''a1'' [(''patientId'', JStr ''p1''), (''doctorId'', JStr ''d1''),
            (''dateTime'', JStr ''2024-05-01T10:00''), (''duration'', JNum 30),
            (''description'', JStr ''checkup'')]) empty_state =
       Some (\<lparr>status = 404, payload = Json (JObj [(''status'', JNum 404),
         (''message'', JStr ''Appointment with id = a1 not found'')])\<rparr>, empty_state)
   \<and> handle1 \<lparr>uuid = ''u1'', now = JStr ''t''\<rparr> (GetById Appointments ''a1'') empty_state =
       Some (\<lparr>status = 404, payload = Text ''the appointment with id=a1 not found''\<rparr>,
         empty_state)"
proof -
  have h: "btree_get (storage_of Appointments empty_state) (JStr ''a1'') = None"
    by (simp add: btree_get_def empty_state_def)
  show ?thesis
    using h absent_id_not_found [OF h, of "\<lparr>uuid = ''u1'', now = JStr ''t''\<rparr>"
      "[(''patientId'', JStr ''p1''), (''doctorId'', JStr ''d1''),
        (''dateTime'', JStr ''2024-05-01T10:00''), (''duration'', JNum 30),
        (''description'', JStr ''checkup'')]"]
    by (simp add: not_string_def not_number_def prop_of_def)
qed

subsection \<open>Payloads that fail validation\<close>

lemma has_type_string: "\<not> has_type FString (prop_of body f) \<Longrightarrow> not_string body f"
  unfolding not_string_def by (cases "prop_of body f" rule: typeof.cases) auto

lemma has_type_number: "\<not> has_type FNumber (prop_of body f) \<Longrightarrow> not_number body f"
  unfolding not_number_def by (cases "prop_of body f" rule: typeof.cases) auto

lemma has_type_array: "\<not> has_type FArray (prop_of body f) \<Longrightarrow> not_array body f"
  unfolding not_array_def by (cases "prop_of body f" rule: typeof.cases) auto

lemma ill_formed_invalid3: "ill_formed c body \<Longrightarrow> invalid3 c body"
  unfolding ill_formed_def
  by (cases c) (auto dest: has_type_string has_type_number has_type_array)

text \<open>
  C4, as the claim states it, fails: revision 1 (and revision 2) checks nothing, so a
  create request with an empty payload is answered with status 200 and a doctor is stored.
\<close>

theorem post1_stores_empty_payload:
  "ill_formed Doctors []
   \<and> handle1 \<lparr>uuid = ''u1'', now = JStr ''t''\<rparr> (Post Doctors []) empty_state =
       Some (\<lparr>status = 200,
               payload = Json (JObj [(''id'', JStr ''u1''), (''createdAt'', JStr ''t'')])\<rparr>,
             \<lparr>doctorsStorage =
                [(JStr ''u1'', [(''id'', JStr ''u1''), (''createdAt'', JStr ''t'')])],
              patientsStorage = [], appointmentsStorage = [], patientRecordsStorage = [],
              medicationsStorage = []\<rparr>)"
  by (simp add: ill_formed_def prop_of_def post1_def assign_def btree_insert_def
      json_res_def empty_state_def Let_def)

text \<open>
  C4, amended. In revision 3 every create request and every registered update request
  whose payload misses a required field, or carries one of another type, is answered with
  status 400 and leaves all five collections as they are. Revisions 1 and 2 do not
  validate payloads.
\<close>

theorem ill_formed_payload_rejected:
  assumes "ill_formed c body"
  shows
    "handle3 e (Post c body) st =
       Some (\<lparr>status = 400, payload = Json (JObj [(''status'', JNum 400),
          (''error'', JStr (post_error3 c))])\<rparr>, st)
     \<and> (c \<noteq> Medications \<longrightarrow>
          handle3 e (Put c ident body) st =
            Some (\<lparr>status = 400,
                    payload = Json (JObj [(''error'', JStr (put_error3 c))])\<rparr>, st))"
proof -
  have inv: "invalid3 c body"
    using assms by (rule ill_formed_invalid3)
  have post: "post3 c e body st =
      (json_res 400 (JObj [(''status'', JNum 400), (''error'', JStr (post_error3 c))]), st)"
    using inv by (simp add: post3_def)
  have put: "put3 c e ident body st =
      (json_res 400 (JObj [(''error'', JStr (put_error3 c))]), st)"
    using inv by (simp add: put3_def)
  have routed: "c \<noteq> Medications \<Longrightarrow>
      handle3 e (Put c ident body) st = Some (put3 c e ident body st)"
    by (cases c) simp_all
  show ?thesis
    using post put routed by (simp add: json_res_def)
qed

theorem ill_formed_payload_rejected_witness:
  "ill_formed Patients [(''name'', JStr ''Ann''), (''age'', JStr ''30''), (''gender'', JStr ''f'')]
   \<and> handle3 \<lparr>uuid = ''u1'', now = JStr ''t''\<rparr>
        (Post Patients [(''name'', JStr ''Ann''), (''age'', JStr ''30''), (''gender'', JStr ''f'')])
        empty_state =
       Some (\<lparr>status = 400, payload = Json (JObj [(''status'', JNum 400),
          (''error'', JStr (post_error3 Patients))])\<rparr>, empty_state)
   \<and> handle3 \<lparr>uuid = ''u1'', now = JStr ''t''\<rparr>
        (Put Patients ''p1''
           [(''name'', JStr ''Ann''), (''age'', JStr ''30''), (''gender'', JStr ''f'')])
        empty_state =
       Some (\<lparr>status = 400,
               payload = Json (JObj [(''error'', JStr (put_error3 Patients))])\<rparr>, empty_state)"
proof -
  have h: "ill_formed Patients
      [(''name'', JStr ''Ann''), (''age'', JStr ''30''), (''gender'', JStr ''f'')]"
    by (simp add: ill_formed_def prop_of_def)
  show ?thesis
    using h ill_formed_payload_rejected [OF h, of "\<lparr>uuid = ''u1'', now = JStr ''t''\<rparr>"
      empty_state "''p1''"]
    by simp
qed

subsection \<open>Identifiers taken from the payload\<close>

text \<open>
  C3. The create handlers that spread the payload into the object literal write the
  payload's members after \<^verbatim>\<open>id\<close> and \<^verbatim>\<open>createdAt\<close>, so a payload that carries these
  members replaces the generated identifier and the server's timestamp, and the entity is
  stored under the identifier the client chose. The doctor handler of revision 3 and all
  of revision 2 build the entity with a constructor and are not affected.
\<close>

theorem post3_payload_overrides_id:
  "handle3 \<lparr>uuid = ''u1'', now = JStr ''t''\<rparr>
     (Post Patients [(''name'', JStr ''Ann''), (''age'', JNum 30), (''gender'', JStr ''f''),
        (''id'', JStr ''chosen''), (''createdAt'', JStr ''never'')]) empty_state =
   Some (\<lparr>status = 201, payload = Json (JObj [(''status'', JNum 201),
            (''message'', JStr ''Patient created successfully''),
            (''patient'', JObj [(''id'', JStr ''chosen''), (''createdAt'', JStr ''never''),
               (''name'', JStr ''Ann''), (''age'', JNum 30), (''gender'', JStr ''f'')])])\<rparr>,
         \<lparr>doctorsStorage = [],
          patientsStorage =
            [(JStr ''chosen'', [(''id'', JStr ''chosen''), (''createdAt'', JStr ''never''),
               (''name'', JStr ''Ann''), (''age'', JNum 30), (''gender'', JStr ''f'')])],
          appointmentsStorage = [], patientRecordsStorage = [], medicationsStorage = []\<rparr>)"
  by (simp add: post3_def not_string_def not_number_def prop_of_def assign_def
      btree_insert_def json_res_def empty_state_def Let_def)

text \<open>
  C9. An update can leave an entity under a key that is not its \<^verbatim>\<open>id\<close>. In revision 3
  the stored object is overwritten with the payload's members, \<^verbatim>\<open>id\<close> included, and
  written back under the old \<^verbatim>\<open>id\<close>. In revision 2 the update builds a new appointment,
  whose constructor draws a new identifier, and stores it under the key of the path.
\<close>

theorem update_breaks_ids_match:
  "run3 [(\<lparr>uuid = ''u1'', now = JStr ''t1''\<rparr>,
            Post Doctors [(''name'', JStr ''Ann''), (''speciality'', JStr ''eyes'')]),
         (\<lparr>uuid = ''u2'', now = JStr ''t2''\<rparr>,
            Put Doctors ''u1'' [(''name'', JStr ''Ann''), (''speciality'', JStr ''eyes''),
              (''id'', JStr ''zz'')])] empty_state =
     \<lparr>doctorsStorage =
        [(JStr ''u1'', [(''id'', JStr ''zz''), (''name'', JStr ''Ann''),
           (''speciality'', JStr ''eyes''), (''createdAt'', JStr ''t1''),
           (''updatedAt'', JStr ''t2'')])],
      patientsStorage = [], appointmentsStorage = [], patientRecordsStorage = [],
      medicationsStorage = []\<rparr>
   \<and> ids_match (run3 [(\<lparr>uuid = ''u1'', now = JStr ''t1''\<rparr>,
            Post Doctors [(''name'', JStr ''Ann''), (''speciality'', JStr ''eyes'')]),
         (\<lparr>uuid = ''u2'', now = JStr ''t2''\<rparr>,
            Put Doctors ''u1'' [(''name'', JStr ''Ann''), (''speciality'', JStr ''eyes''),
              (''id'', JStr ''zz'')])] empty_state) = False
   \<and> run2 (\<lambda>d. case d of Some (JStr s) \<Rightarrow> JStr s | _ \<Rightarrow> JNull)
        [(\<lparr>uuid = ''u1'', now = JStr ''t1''\<rparr>,
            Post Appointments [(''patientId'', JStr ''p1''), (''doctorId'', JStr ''d1''),
               (''dateTime'', JStr ''2024-05-01T10:00:00.000Z'')]),
         (\<lparr>uuid = ''u2'', now = JStr ''t2''\<rparr>,
            Put Appointments ''u1''
              [(''patientId'', JStr ''p1''), (''doctorId'', JStr ''d1''),
               (''dateTime'', JStr ''2024-05-01T10:00:00.000Z'')])] empty_state =
     \<lparr>doctorsStorage = [], patientsStorage = [],
      appointmentsStorage =
        [(JStr ''u1'', [(''id'', JStr ''u2''), (''patientId'', JStr ''p1''),
           (''doctorId'', JStr ''d1''), (''dateTime'', JStr ''2024-05-01T10:00:00.000Z''),
           (''createdAt'', JStr ''t2''), (''updatedAt'', JStr ''t2'')])],
      patientRecordsStorage = [], medicationsStorage = []\<rparr>
   \<and> ids_match (run2 (\<lambda>d. case d of Some (JStr s) \<Rightarrow> JStr s | _ \<Rightarrow> JNull)
        [(\<lparr>uuid = ''u1'', now = JStr ''t1''\<rparr>,
            Post Appointments [(''patientId'', JStr ''p1''), (''doctorId'', JStr ''d1''),
               (''dateTime'', JStr ''2024-05-01T10:00:00.000Z'')]),
         (\<lparr>uuid = ''u2'', now = JStr ''t2''\<rparr>,
            Put Appointments ''u1''
              [(''patientId'', JStr ''p1''), (''doctorId'', JStr ''d1''),
               (''dateTime'', JStr ''2024-05-01T10:00:00.000Z'')])] empty_state) = False"
  by (simp add: after_def post3_def put3_def post2_def put_appointment2_def opt_json_def
      not_string_def prop_of_def assign_def mk_obj_def btree_insert_def btree_get_def
      json_res_def empty_state_def ids_match_def keyed_by_id_def Let_def)

subsection \<open>Keys written by an update\<close>

text \<open>
  C7. An update of revision 3 (and of revision 1) writes the new object under the
  \<^verbatim>\<open>id\<close> member of the stored object, not under the key of the path. Once an earlier
  update has changed that member, the next update of the same path writes another key: here
  the third request addresses \<^verbatim>\<open>u1\<close>, leaves the entry of \<^verbatim>\<open>u1\<close> as it was and
  creates an entry under \<^verbatim>\<open>zz\<close>.
\<close>

theorem update_writes_another_key:
  "run3 [(\<lparr>uuid = ''u1'', now = JStr ''t1''\<rparr>,
            Post Doctors [(''name'', JStr ''Ann''), (''speciality'', JStr ''eyes'')]),
         (\<lparr>uuid = ''u2'', now = JStr ''t2''\<rparr>,
            Put Doctors ''u1'' [(''name'', JStr ''Ann''), (''speciality'', JStr ''eyes''),
              (''id'', JStr ''zz'')]),
         (\<lparr>uuid = ''u3'', now = JStr ''t3''\<rparr>,
            Put Doctors ''u1'' [(''name'', JStr ''Bob''), (''speciality'', JStr ''eyes'')])]
      empty_state =
     \<lparr>doctorsStorage =
        [(JStr ''u1'', [(''id'', JStr ''zz''), (''name'', JStr ''Ann''),
           (''speciality'', JStr ''eyes''), (''createdAt'', JStr ''t1''),
           (''updatedAt'', JStr ''t2'')]),
         (JStr ''zz'', [(''id'', JStr ''zz''), (''name'', JStr ''Bob''),
           (''speciality'', JStr ''eyes''), (''createdAt'', JStr ''t1''),
           (''updatedAt'', JStr ''t3'')])],
      patientsStorage = [], appointmentsStorage = [], patientRecordsStorage = [],
      medicationsStorage = []\<rparr>"
  by (simp add: after_def post3_def put3_def not_string_def
      prop_of_def assign_def mk_obj_def btree_insert_def btree_get_def
      json_res_def empty_state_def Let_def)

subsection \<open>The routes named after a patient or a doctor\<close>

text \<open>
  C2. In revision 3 the three routes look the path parameter up as a key of the
  collection instead of filtering on \<^verbatim>\<open>patientId\<close> or \<^verbatim>\<open>doctorId\<close>: after one
  patient record of doctor \<^verbatim>\<open>d1\<close> and patient \<^verbatim>\<open>p1\<close> is stored under \<^verbatim>\<open>r1\<close>, the
  records of \<^verbatim>\<open>d1\<close> and of \<^verbatim>\<open>p1\<close> are reported as not found, and asking for the
  records of doctor \<^verbatim>\<open>r1\<close> returns that one record, not a list. Revisions 1 and 2 filter.
\<close>

theorem get_for3_looks_up_key:
  "run3 [(\<lparr>uuid = ''r1'', now = JStr ''t1''\<rparr>,
            Post PatientRecords [(''patientId'', JStr ''p1''), (''doctorId'', JStr ''d1''),
              (''diagnosis'', JStr ''flu''), (''treatment'', JStr ''rest''),
              (''medications'', JArr [])])] empty_state =
     \<lparr>doctorsStorage = [], patientsStorage = [], appointmentsStorage = [],
      patientRecordsStorage =
        [(JStr ''r1'', [(''id'', JStr ''r1''), (''createdAt'', JStr ''t1''),
           (''patientId'', JStr ''p1''), (''doctorId'', JStr ''d1''),
           (''diagnosis'', JStr ''flu''), (''treatment'', JStr ''rest''),
           (''medications'', JArr [])])],
      medicationsStorage = []\<rparr>
   \<and> map_option fst (handle3 \<lparr>uuid = ''u2'', now = JStr ''t2''\<rparr>
        (GetByDoctor PatientRecords ''d1'')
        (run3 [(\<lparr>uuid = ''r1'', now = JStr ''t1''\<rparr>,
            Post PatientRecords [(''patientId'', JStr ''p1''), (''doctorId'', JStr ''d1''),
              (''diagnosis'', JStr ''flu''), (''treatment'', JStr ''rest''),
              (''medications'', JArr [])])] empty_state)) =
     Some \<lparr>status = 404, payload = Json (JObj [(''status'', JNum 404),
        (''message'', JStr ''Patient records for doctor with id = d1 not found'')])\<rparr>
   \<and> map_option fst (handle3 \<lparr>uuid = ''u2'', now = JStr ''t2''\<rparr>
        (GetByPatient PatientRecords ''p1'')
        (run3 [(\<lparr>uuid = ''r1'', now = JStr ''t1''\<rparr>,
            Post PatientRecords [(''patientId'', JStr ''p1''), (''doctorId'', JStr ''d1''),
              (''diagnosis'', JStr ''flu''), (''treatment'', JStr ''rest''),
              (''medications'', JArr [])])] empty_state)) =
     Some \<lparr>status = 404, payload = Json (JObj [(''status'', JNum 404),
        (''message'', JStr ''Patient records for patient with id = p1 not found'')])\<rparr>
   \<and> map_option fst (handle3 \<lparr>uuid = ''u2'', now = JStr ''t2''\<rparr>
        (GetByDoctor PatientRecords ''r1'')
        (run3 [(\<lparr>uuid = ''r1'', now = JStr ''t1''\<rparr>,
            Post PatientRecords [(''patientId'', JStr ''p1''), (''doctorId'', JStr ''d1''),
              (''diagnosis'', JStr ''flu''), (''treatment'', JStr ''rest''),
              (''medications'', JArr [])])] empty_state)) =
     Some \<lparr>status = 200, payload = Json (JObj [(''status'', JNum 200),
        (''message'', JStr ''Patient records retrieved successfully''),
        (''patientRecords'', JObj [(''id'', JStr ''r1''), (''createdAt'', JStr ''t1''),
           (''patientId'', JStr ''p1''), (''doctorId'', JStr ''d1''),
           (''diagnosis'', JStr ''flu''), (''treatment'', JStr ''rest''),
           (''medications'', JArr [])])])\<rparr>"
  by (simp add: after_def post3_def get_for3_def not_string_def not_array_def
      prop_of_def assign_def btree_insert_def btree_get_def
      json_res_def empty_state_def Let_def)

subsection \<open>Pagination\<close>

lemma slice_forward:
  assumes "0 \<le> a" "a \<le> b"
  shows "slice xs a b = take (nat (b - a)) (drop (nat a) xs)"
proof (cases "a \<le> int (length xs)")
  case True
  show ?thesis
  proof (cases "b \<le> int (length xs)")
    case True
    with assms \<open>a \<le> int (length xs)\<close> show ?thesis
      by (simp add: slice_def Let_def min_def)
  next
    case False
    with assms \<open>a \<le> int (length xs)\<close>
    have "length (drop (nat a) xs) \<le> nat (b - a)"
      and "length (drop (nat a) xs) \<le> nat (int (length xs) - a)"
      by auto
    with assms False \<open>a \<le> int (length xs)\<close> show ?thesis
      by (simp add: slice_def Let_def min_def)
  qed
next
  case False
  with assms show ?thesis
    by (simp add: slice_def Let_def min_def)
qed

lemma paginate3_forward:
  assumes "query_int qpage 1 = int p" "query_int qlimit 10 = int l" "0 < p" "0 < l"
  shows "paginate3 c qpage qlimit st =
    (\<lparr>status = 200, payload = Json (JArr (map JObj
        (take l (drop ((p - 1) * l) (btree_values (storage_of c st))))))\<rparr>, st)"
proof -
  obtain q where p: "p = Suc q"
    using assms(3) by (cases p) auto
  have a: "0 \<le> (int p - 1) * int l"
    by (simp add: p)
  have b: "(int p - 1) * int l \<le> int p * int l"
    by (simp add: p algebra_simps)
  have len: "nat (int p * int l - (int p - 1) * int l) = l"
    by (simp add: p algebra_simps)
  have "(int p - 1) * int l = int (q * l)"
    by (simp add: p)
  then have start: "nat ((int p - 1) * int l) = (p - 1) * l"
    by (simp only: nat_int p diff_Suc_1)
  have "slice (btree_values (storage_of c st)) ((int p - 1) * int l) (int p * int l) =
      take l (drop ((p - 1) * l) (btree_values (storage_of c st)))"
    using slice_forward [OF a b] by (simp only: len start)
  then show ?thesis
    by (simp add: paginate3_def Let_def json_res_def assms(1,2))
qed

lemma decimal_digits: "u \<in> set (decimal n) \<Longrightarrow> 48 \<le> u \<and> u \<le> 57"
proof (induction n arbitrary: u rule: decimal.induct)
  case (1 n)
  show ?case
  proof (cases "10 \<le> n")
    case True
    with "1.prems" have "u \<in> set (decimal (n div 10)) \<or> u = n mod 10 + 48"
      by (subst (asm) decimal.simps) auto
    then show ?thesis
      using "1.IH" [OF True] by auto
  next
    case False
    with "1.prems" have "u = n mod 10 + 48"
      by (subst (asm) decimal.simps) auto
    then show ?thesis by auto
  qed
qed

lemma decimal_value: "foldl (\<lambda>acc u. acc * 10 + digit_val u) 0 (decimal n) = n"
proof (induction n rule: decimal.induct)
  case (1 n)
  have last: "k < 10 \<Longrightarrow> digit_val (k + 48) = k" for k
    by (simp add: digit_val_def)
  show ?case
  proof (cases "10 \<le> n")
    case True
    then show ?thesis
      using "1.IH" by (subst decimal.simps) (simp add: last)
  next
    case False
    then show ?thesis
      by (subst decimal.simps) (simp add: last)
  qed
qed

lemma decimal_not_Nil: "decimal n \<noteq> []"
  by (subst decimal.simps) simp

lemma digit_run:
  assumes "\<forall>u \<in> set ds. 48 \<le> u \<and> u \<le> 57" "ds \<noteq> []"
  shows "parseInt ds = Some (int (foldl (\<lambda>acc u. acc * 10 + digit_val u) 0 ds))"
proof -
  obtain d rest where ds: "ds = d # rest"
    using assms(2) by (cases ds) auto
  have d: "48 \<le> d" "d \<le> 57"
    using assms(1) ds by auto
  have nospace: "\<not> is_space d"
    using d by (auto simp: is_space_def)
  have sign: "(take 1 ds = units ''+'') = False" "(take 1 ds = units ''-'') = False"
    using d ds by (auto simp: units_def)
  have hex: "(take 2 ds = units ''0x'') = False" "(take 2 ds = units ''0X'') = False"
  proof -
    { fix x assume "take 2 ds = [d, x]" and "x = 120 \<or> x = 88"
      then have "x \<in> set ds" by (metis in_set_takeD list.set_intros(1,2))
      with assms(1) have "48 \<le> x \<and> x \<le> 57" by blast
      with \<open>x = 120 \<or> x = 88\<close> have False by auto }
    then show "(take 2 ds = units ''0x'') = False" "(take 2 ds = units ''0X'') = False"
      using ds by (cases rest; auto simp: units_def)+
  qed
  have run: "takeWhile (\<lambda>u. digit_val u < 10) ds = ds"
    using assms(1) by (auto simp: digit_val_def)
  have s1: "dropWhile is_space ds = ds"
    using nospace ds by simp
  have ne: "(ds = []) = False"
    using assms(2) by simp
  show ?thesis
    by (simp only: parseInt_def Let_def s1 sign hex run ne if_False simp_thms)
qed

lemma parseInt_decimal: "parseInt (decimal n) = Some (int n)"
  using digit_run [of "decimal n"] decimal_digits [of _ n] decimal_not_Nil [of n]
  by (simp add: decimal_value)

lemma query_int_decimal: "0 < n \<Longrightarrow> query_int (Some (decimal n)) d = int n"
  by (simp add: query_int_def parseInt_decimal)

lemma query_int_parse: "parseInt s = Some (int n) \<Longrightarrow> 0 < n \<Longrightarrow> query_int (Some s) d = int n"
  by (simp add: query_int_def)

lemma query_int_absent: "query_int None d = d"
  by (simp add: query_int_def parseInt_def is_space_def digit_val_def units_def Let_def)

lemma query_int_1: "query_int (Some (units ''1'')) d = 1"
  by (simp add: query_int_def parseInt_def is_space_def digit_val_def units_def Let_def)

lemma query_int_10: "query_int (Some (units ''10'')) d = 10"
  by (simp add: query_int_def parseInt_def is_space_def digit_val_def units_def Let_def)

lemma query_int_defaulted: "defaulted q \<Longrightarrow> query_int q d = d"
proof (cases q)
  case None
  then show ?thesis by (simp add: query_int_absent)
next
  case (Some s)
  assume "defaulted q"
  with Some show ?thesis by (auto simp: defaulted_def query_int_def)
qed

lemma query_int_read: "parseInt s = Some n \<Longrightarrow> n \<noteq> 0 \<Longrightarrow> query_int (Some s) d = n"
  by (simp add: query_int_def)

lemma paginate3_query_int:
  "query_int qpage 1 = query_int qpage' 1 \<Longrightarrow> query_int qlimit 10 = query_int qlimit' 10 \<Longrightarrow>
   paginate3 c qpage qlimit st = paginate3 c qpage' qlimit' st"
  by (simp add: paginate3_def)

lemma digit_val_decimal: "digit_val u < 10 \<longleftrightarrow> 48 \<le> u \<and> u \<le> 57"
  by (auto simp: digit_val_def)

lemma no_digit_not_a_number:
  assumes "\<forall>u \<in> set s. \<not> (48 \<le> u \<and> u \<le> 57)"
  shows "parseInt s = None"
proof -
  define s1 where "s1 = dropWhile is_space s"
  define s2 where
    "s2 = (if take 1 s1 = units ''+'' \<or> take 1 s1 = units ''-'' then drop 1 s1 else s1)"
  have sub: "set s2 \<subseteq> set s"
    using set_dropWhileD [of _ is_space s] in_set_dropD [of _ 1 s1]
    by (auto simp: s1_def s2_def)
  have nodigit: "\<forall>u \<in> set s2. \<not> digit_val u < 10"
    using assms sub by (auto simp: digit_val_decimal)
  have zero: "48 \<notin> set s2"
    using assms sub by auto
  have hex: "(take 2 s2 = units ''0x'') = False" "(take 2 s2 = units ''0X'') = False"
  proof -
    have "take 2 s2 = 48 # t \<Longrightarrow> False" for t
      using zero in_set_takeD [of 48 2 s2] by simp
    then show "(take 2 s2 = units ''0x'') = False" "(take 2 s2 = units ''0X'') = False"
      by (auto simp: units_def)
  qed
  have run: "takeWhile (\<lambda>u. digit_val u < 10) s2 = []"
    using nodigit by (cases s2) auto
  show ?thesis
    unfolding parseInt_def Let_def s1_def [symmetric] s2_def [symmetric]
    by (simp only: hex run if_False if_True simp_thms)
qed

lemma slice_contiguous: "\<exists>before rest. xs = before @ slice xs a b @ rest"
proof -
  obtain k n where "slice xs a b = take n (drop k xs)"
    unfolding slice_def Let_def by blast
  moreover have "xs = take k xs @ drop k xs"
    by simp
  moreover have "drop k xs = take n (drop k xs) @ drop n (drop k xs)"
    by (rule append_take_drop_id [symmetric])
  ultimately show ?thesis by metis
qed

lemma paginate3_general:
  "paginate3 c qpage qlimit st =
      (\<lparr>status = 200, payload = Json (JArr (map JObj
            (slice (btree_values (storage_of c st))
               ((query_int qpage 1 - 1) * query_int qlimit 10)
               (query_int qpage 1 * query_int qlimit 10))))\<rparr>, st)"
  by (simp add: paginate3_def Let_def json_res_def)

lemma decimal_2: "decimal 2 = units ''2''"
  by (simp add: decimal.simps units_def)


text \<open>
  C5, as the claim states it, fails: with page 1 and limit 0 the claim's slice runs from
  index 0 to index 0 and is empty, while the handler replaces the limit 0 by 10 and sends
  the first ten entries (here all three).
\<close>

theorem paginate_limit_zero_serves_ten:
  "parseInt (units ''1'') = Some 1 \<and> parseInt (units ''0'') = Some 0
   \<and> slice (btree_values (storage_of Doctors (empty_state\<lparr>doctorsStorage :=
           [(JStr ''a'', [(''id'', JStr ''a'')]), (JStr ''b'', [(''id'', JStr ''b'')]),
            (JStr ''c'', [(''id'', JStr ''c'')])]\<rparr>))) ((1 - 1) * 0) (1 * 0) = []
   \<and> handle3 \<lparr>uuid = ''u1'', now = JStr ''t''\<rparr>
        (GetPages Doctors (Some (units ''1'')) (Some (units ''0'')))
        (empty_state\<lparr>doctorsStorage :=
           [(JStr ''a'', [(''id'', JStr ''a'')]), (JStr ''b'', [(''id'', JStr ''b'')]),
            (JStr ''c'', [(''id'', JStr ''c'')])]\<rparr>) =
       Some (\<lparr>status = 200, payload = Json (JArr
          [JObj [(''id'', JStr ''a'')], JObj [(''id'', JStr ''b'')],
           JObj [(''id'', JStr ''c'')]])\<rparr>,
        empty_state\<lparr>doctorsStorage :=
           [(JStr ''a'', [(''id'', JStr ''a'')]), (JStr ''b'', [(''id'', JStr ''b'')]),
            (JStr ''c'', [(''id'', JStr ''c'')])]\<rparr>)"
  by (simp add: paginate3_def query_int_def parseInt_def is_space_def digit_val_def units_def
      slice_def btree_values_def json_res_def Let_def)

text \<open>
  C5, amended. Every paginate request of revision 3 is answered with status 200 and
  \<^verbatim>\<open>values().slice((p - 1) * l, p * l)\<close>, where \<open>p\<close> is the page parameter as
  \<^verbatim>\<open>parseInt\<close> reads it, or 1 when the parameter is absent, not a number or zero, and \<open>l\<close>
  is the limit parameter read in the same way, with 10 in place of 1. For positive \<open>p\<close> and
  \<open>l\<close>, written as decimal numerals or as any text that \<^verbatim>\<open>parseInt\<close> reads as these
  numbers, these are the entries of the collection's sequence of values from index
  \<open>(p - 1) * l\<close> up to, not including, index \<open>p * l\<close> (fewer where the sequence ends
  before).
\<close>

theorem paginate_slice:
  "(0 < p \<and> 0 < l \<longrightarrow>
      handle3 e (GetPages c (Some (decimal p)) (Some (decimal l))) st =
        Some (\<lparr>status = 200, payload = Json (JArr (map JObj
          (take l (drop ((p - 1) * l) (btree_values (storage_of c st))))))\<rparr>, st)
    \<and> (parseInt sp = Some (int p) \<and> parseInt sl = Some (int l) \<longrightarrow>
          handle3 e (GetPages c (Some sp) (Some sl)) st =
          handle3 e (GetPages c (Some (decimal p)) (Some (decimal l))) st))
   \<and> handle3 e (GetPages c None qlimit) st =
       handle3 e (GetPages c (Some (units ''1'')) qlimit) st
   \<and> handle3 e (GetPages c qpage None) st =
       handle3 e (GetPages c qpage (Some (units ''10''))) st
   \<and> handle3 e (GetPages c qpage qlimit) st =
       Some (\<lparr>status = 200, payload = Json (JArr (map JObj
          (slice (btree_values (storage_of c st))
             ((query_int qpage 1 - 1) * query_int qlimit 10)
             (query_int qpage 1 * query_int qlimit 10))))\<rparr>, st)
   \<and> (defaulted q \<longrightarrow> query_int q d = d)
   \<and> (parseInt s = Some n \<and> n \<noteq> 0 \<longrightarrow> query_int (Some s) d = n)"
proof -
  have main: "0 < p \<Longrightarrow> 0 < l \<Longrightarrow>
      paginate3 c (Some (decimal p)) (Some (decimal l)) st =
      (\<lparr>status = 200, payload = Json (JArr (map JObj
          (take l (drop ((p - 1) * l) (btree_values (storage_of c st))))))\<rparr>, st)"
    by (intro paginate3_forward query_int_decimal)
  have parsed: "0 < p \<Longrightarrow> 0 < l \<Longrightarrow>
      parseInt sp = Some (int p) \<Longrightarrow> parseInt sl = Some (int l) \<Longrightarrow>
      paginate3 c (Some sp) (Some sl) st = paginate3 c (Some (decimal p)) (Some (decimal l)) st"
    by (intro paginate3_query_int) (simp_all add: query_int_parse query_int_decimal)
  have page: "paginate3 c None qlimit st = paginate3 c (Some (units ''1'')) qlimit st"
    by (intro paginate3_query_int) (simp_all add: query_int_absent query_int_1)
  have limit: "paginate3 c qpage None st = paginate3 c qpage (Some (units ''10'')) st"
    by (intro paginate3_query_int) (simp_all add: query_int_absent query_int_10)
  show ?thesis
    using main parsed page limit paginate3_general [of c qpage qlimit st]
      query_int_defaulted [of q d] query_int_read [of s n d]
    by simp
qed

theorem paginate_slice_witness:
  "(0::nat) < 2
   \<and> handle3 \<lparr>uuid = ''u1'', now = JStr ''t''\<rparr>
        (GetPages Doctors (Some (units ''2'')) (Some (units ''2'')))
        (empty_state\<lparr>doctorsStorage :=
           [(JStr ''a'', [(''id'', JStr ''a'')]), (JStr ''b'', [(''id'', JStr ''b'')]),
            (JStr ''c'', [(''id'', JStr ''c'')]), (JStr ''d'', [(''id'', JStr ''d'')]),
            (JStr ''e'', [(''id'', JStr ''e'')])]\<rparr>) =
       Some (\<lparr>status = 200, payload = Json (JArr
          [JObj [(''id'', JStr ''c'')], JObj [(''id'', JStr ''d'')]])\<rparr>,
        empty_state\<lparr>doctorsStorage :=
           [(JStr ''a'', [(''id'', JStr ''a'')]), (JStr ''b'', [(''id'', JStr ''b'')]),
            (JStr ''c'', [(''id'', JStr ''c'')]), (JStr ''d'', [(''id'', JStr ''d'')]),
            (JStr ''e'', [(''id'', JStr ''e'')])]\<rparr>)"
proof -
  have h: "(0::nat) < 2" by simp
  show ?thesis
    using paginate_slice [of 2 2 "\<lparr>uuid = ''u1'', now = JStr ''t''\<rparr>" Doctors
      "empty_state\<lparr>doctorsStorage :=
           [(JStr ''a'', [(''id'', JStr ''a'')]), (JStr ''b'', [(''id'', JStr ''b'')]),
            (JStr ''c'', [(''id'', JStr ''c'')]), (JStr ''d'', [(''id'', JStr ''d'')]),
            (JStr ''e'', [(''id'', JStr ''e'')])]\<rparr>", THEN conjunct1, THEN mp, THEN conjunct1]
    by (simp add: decimal_2 btree_values_def)
qed

text \<open>
  C10. A page or limit parameter that is absent, that \<^verbatim>\<open>parseInt\<close> does not read as a
  number (as is every text without a decimal digit), or that it reads as zero, is served as
  page 1 or limit 10: with such a page and a limit \<open>l\<close> the response carries the first
  \<open>l\<close> entries, with a page \<open>p\<close> and such a limit it carries the ten entries from index
  \<open>(p - 1) * 10\<close> on, and with both it carries the first ten. Every paginate request of
  revision 3 is answered with status 200 and a run of consecutive entries of the
  collection's sequence of values, and it leaves the state as it is.
\<close>

theorem paginate_defaults:
  "(defaulted qpage \<and> parseInt sl = Some (int l) \<and> 0 < l \<longrightarrow>
      handle3 e (GetPages c qpage (Some sl)) st =
        Some (\<lparr>status = 200, payload = Json (JArr (map JObj
          (take l (btree_values (storage_of c st)))))\<rparr>, st))
   \<and> (defaulted qlimit \<and> parseInt sp = Some (int p) \<and> 0 < p \<longrightarrow>
      handle3 e (GetPages c (Some sp) qlimit) st =
        Some (\<lparr>status = 200, payload = Json (JArr (map JObj
          (take 10 (drop ((p - 1) * 10) (btree_values (storage_of c st))))))\<rparr>, st))
   \<and> (defaulted qpage \<and> defaulted qlimit \<longrightarrow>
      handle3 e (GetPages c qpage qlimit) st =
        Some (\<lparr>status = 200, payload = Json (JArr (map JObj
          (take 10 (btree_values (storage_of c st)))))\<rparr>, st))
   \<and> (\<exists>before results rest.
        btree_values (storage_of c st) = before @ results @ rest
        \<and> handle3 e (GetPages c qp ql) st =
            Some (\<lparr>status = 200, payload = Json (JArr (map JObj results))\<rparr>, st))
   \<and> defaulted None
   \<and> ((\<forall>u \<in> set s. \<not> (48 \<le> u \<and> u \<le> 57)) \<longrightarrow> defaulted (Some s))
   \<and> (parseInt s = Some 0 \<longrightarrow> defaulted (Some s))"
proof -
  have nonnum: "\<forall>u \<in> set s. \<not> (48 \<le> u \<and> u \<le> 57) \<Longrightarrow> defaulted (Some s)"
    using no_digit_not_a_number [of s] by (simp add: defaulted_def)
  have page: "defaulted qpage \<Longrightarrow> parseInt sl = Some (int l) \<Longrightarrow> 0 < l \<Longrightarrow>
      paginate3 c qpage (Some sl) st =
        (\<lparr>status = 200, payload = Json (JArr (map JObj
          (take l (drop ((1 - 1) * l) (btree_values (storage_of c st))))))\<rparr>, st)"
    by (intro paginate3_forward) (simp_all add: query_int_defaulted query_int_parse)
  have limit: "defaulted qlimit \<Longrightarrow> parseInt sp = Some (int p) \<Longrightarrow> 0 < p \<Longrightarrow>
      paginate3 c (Some sp) qlimit st =
        (\<lparr>status = 200, payload = Json (JArr (map JObj
          (take 10 (drop ((p - 1) * 10) (btree_values (storage_of c st))))))\<rparr>, st)"
    by (intro paginate3_forward) (simp_all add: query_int_defaulted query_int_parse)
  have both: "defaulted qpage \<Longrightarrow> defaulted qlimit \<Longrightarrow>
      paginate3 c qpage qlimit st =
        (\<lparr>status = 200, payload = Json (JArr (map JObj
          (take 10 (drop ((1 - 1) * 10) (btree_values (storage_of c st))))))\<rparr>, st)"
    by (intro paginate3_forward) (simp_all add: query_int_defaulted)
  have ok: "\<exists>before results rest.
        btree_values (storage_of c st) = before @ results @ rest
        \<and> paginate3 c qp ql st =
            (\<lparr>status = 200, payload = Json (JArr (map JObj results))\<rparr>, st)"
    using slice_contiguous [of "btree_values (storage_of c st)"]
    by (simp add: paginate3_def Let_def json_res_def) blast
  have absent: "defaulted None" and zero: "parseInt s = Some 0 \<Longrightarrow> defaulted (Some s)"
    by (simp_all add: defaulted_def)
  show ?thesis
    using page limit both ok nonnum absent zero by simp
qed

theorem paginate_defaults_witness:
  "defaulted (Some (units ''abc'')) \<and> defaulted (Some (units ''0'')) \<and> defaulted None
   \<and> parseInt (units ''2'') = Some 2
   \<and> handle3 \<lparr>uuid = ''u1'', now = JStr ''t''\<rparr>
        (GetPages Doctors (Some (units ''abc'')) (Some (units ''2'')))
        (empty_state\<lparr>doctorsStorage :=
           [(JStr ''k01'', [(''id'', JStr ''k01'')]),
            (JStr ''k02'', [(''id'', JStr ''k02'')]),
            (JStr ''k03'', [(''id'', JStr ''k03'')]),
            (JStr ''k04'', [(''id'', JStr ''k04'')]),
            (JStr ''k05'', [(''id'', JStr ''k05'')]),
            (JStr ''k06'', [(''id'', JStr ''k06'')]),
            (JStr ''k07'', [(''id'', JStr ''k07'')]),
            (JStr ''k08'', [(''id'', JStr ''k08'')]),
            (JStr ''k09'', [(''id'', JStr ''k09'')]),
            (JStr ''k10'', [(''id'', JStr ''k10'')]),
            (JStr ''k11'', [(''id'', JStr ''k11'')])]\<rparr>) =
       Some (\<lparr>status = 200, payload = Json (JArr
          [JObj [(''id'', JStr ''k01'')],
           JObj [(''id'', JStr ''k02'')]])\<rparr>,
        (empty_state\<lparr>doctorsStorage :=
           [(JStr ''k01'', [(''id'', JStr ''k01'')]),
            (JStr ''k02'', [(''id'', JStr ''k02'')]),
            (JStr ''k03'', [(''id'', JStr ''k03'')]),
            (JStr ''k04'', [(''id'', JStr ''k04'')]),
            (JStr ''k05'', [(''id'', JStr ''k05'')]),
            (JStr ''k06'', [(''id'', JStr ''k06'')]),
            (JStr ''k07'', [(''id'', JStr ''k07'')]),
            (JStr ''k08'', [(''id'', JStr ''k08'')]),
            (JStr ''k09'', [(''id'', JStr ''k09'')]),
            (JStr ''k10'', [(''id'', JStr ''k10'')]),
            (JStr ''k11'', [(''id'', JStr ''k11'')])]\<rparr>))
   \<and> handle3 \<lparr>uuid = ''u1'', now = JStr ''t''\<rparr>
        (GetPages Doctors (Some (units ''2'')) (Some (units ''0'')))
        (empty_state\<lparr>doctorsStorage :=
           [(JStr ''k01'', [(''id'', JStr ''k01'')]),
            (JStr ''k02'', [(''id'', JStr ''k02'')]),
            (JStr ''k03'', [(''id'', JStr ''k03'')]),
            (JStr ''k04'', [(''id'', JStr ''k04'')]),
            (JStr ''k05'', [(''id'', JStr ''k05'')]),
            (JStr ''k06'', [(''id'', JStr ''k06'')]),
            (JStr ''k07'', [(''id'', JStr ''k07'')]),
            (JStr ''k08'', [(''id'', JStr ''k08'')]),
            (JStr ''k09'', [(''id'', JStr ''k09'')]),
            (JStr ''k10'', [(''id'', JStr ''k10'')]),
            (JStr ''k11'', [(''id'', JStr ''k11'')])]\<rparr>) =
       Some (\<lparr>status = 200, payload = Json (JArr
          [JObj [(''id'', JStr ''k11'')]])\<rparr>,
        (empty_state\<lparr>doctorsStorage :=
           [(JStr ''k01'', [(''id'', JStr ''k01'')]),
            (JStr ''k02'', [(''id'', JStr ''k02'')]),
            (JStr ''k03'', [(''id'', JStr ''k03'')]),
            (JStr ''k04'', [(''id'', JStr ''k04'')]),
            (JStr ''k05'', [(''id'', JStr ''k05'')]),
            (JStr ''k06'', [(''id'', JStr ''k06'')]),
            (JStr ''k07'', [(''id'', JStr ''k07'')]),
            (JStr ''k08'', [(''id'', JStr ''k08'')]),
            (JStr ''k09'', [(''id'', JStr ''k09'')]),
            (JStr ''k10'', [(''id'', JStr ''k10'')]),
            (JStr ''k11'', [(''id'', JStr ''k11'')])]\<rparr>))
   \<and> handle3 \<lparr>uuid = ''u1'', now = JStr ''t''\<rparr> (GetPages Doctors None None)
        (empty_state\<lparr>doctorsStorage :=
           [(JStr ''k01'', [(''id'', JStr ''k01'')]),
            (JStr ''k02'', [(''id'', JStr ''k02'')]),
            (JStr ''k03'', [(''id'', JStr ''k03'')]),
            (JStr ''k04'', [(''id'', JStr ''k04'')]),
            (JStr ''k05'', [(''id'', JStr ''k05'')]),
            (JStr ''k06'', [(''id'', JStr ''k06'')]),
            (JStr ''k07'', [(''id'', JStr ''k07'')]),
            (JStr ''k08'', [(''id'', JStr ''k08'')]),
            (JStr ''k09'', [(''id'', JStr ''k09'')]),
            (JStr ''k10'', [(''id'', JStr ''k10'')]),
            (JStr ''k11'', [(''id'', JStr ''k11'')])]\<rparr>) =
       Some (\<lparr>status = 200, payload = Json (JArr
          [JObj [(''id'', JStr ''k01'')],
           JObj [(''id'', JStr ''k02'')],
           JObj [(''id'', JStr ''k03'')],
           JObj [(''id'', JStr ''k04'')],
           JObj [(''id'', JStr ''k05'')],
           JObj [(''id'', JStr ''k06'')],
           JObj [(''id'', JStr ''k07'')],
           JObj [(''id'', JStr ''k08'')],
           JObj [(''id'', JStr ''k09'')],
           JObj [(''id'', JStr ''k10'')]])\<rparr>,
        (empty_state\<lparr>doctorsStorage :=
           [(JStr ''k01'', [(''id'', JStr ''k01'')]),
            (JStr ''k02'', [(''id'', JStr ''k02'')]),
            (JStr ''k03'', [(''id'', JStr ''k03'')]),
            (JStr ''k04'', [(''id'', JStr ''k04'')]),
            (JStr ''k05'', [(''id'', JStr ''k05'')]),
            (JStr ''k06'', [(''id'', JStr ''k06'')]),
            (JStr ''k07'', [(''id'', JStr ''k07'')]),
            (JStr ''k08'', [(''id'', JStr ''k08'')]),
            (JStr ''k09'', [(''id'', JStr ''k09'')]),
            (JStr ''k10'', [(''id'', JStr ''k10'')]),
            (JStr ''k11'', [(''id'', JStr ''k11'')])]\<rparr>))"
proof -
  have h1: "defaulted (Some (units ''abc''))" and h2: "defaulted (Some (units ''0''))"
    and h3: "defaulted None" and h4: "parseInt (units ''2'') = Some (int 2)"
    by (simp_all add: defaulted_def parseInt_def is_space_def digit_val_def units_def Let_def)
  have h5: "(0::nat) < 2"
    by simp
  note page = paginate_defaults [where qpage = "Some (units ''abc'')" and sl = "units ''2''"
      and l = 2 and e = "\<lparr>uuid = ''u1'', now = JStr ''t''\<rparr>" and c = Doctors
      and st = "(empty_state\<lparr>doctorsStorage :=
           [(JStr ''k01'', [(''id'', JStr ''k01'')]),
            (JStr ''k02'', [(''id'', JStr ''k02'')]),
            (JStr ''k03'', [(''id'', JStr ''k03'')]),
            (JStr ''k04'', [(''id'', JStr ''k04'')]),
            (JStr ''k05'', [(''id'', JStr ''k05'')]),
            (JStr ''k06'', [(''id'', JStr ''k06'')]),
            (JStr ''k07'', [(''id'', JStr ''k07'')]),
            (JStr ''k08'', [(''id'', JStr ''k08'')]),
            (JStr ''k09'', [(''id'', JStr ''k09'')]),
            (JStr ''k10'', [(''id'', JStr ''k10'')]),
            (JStr ''k11'', [(''id'', JStr ''k11'')])]\<rparr>)",
      THEN conjunct1, THEN mp, OF conjI [OF h1 conjI [OF h4 h5]]]
  note limit = paginate_defaults [where qlimit = "Some (units ''0'')" and sp = "units ''2''"
      and p = 2 and e = "\<lparr>uuid = ''u1'', now = JStr ''t''\<rparr>" and c = Doctors
      and st = "(empty_state\<lparr>doctorsStorage :=
           [(JStr ''k01'', [(''id'', JStr ''k01'')]),
            (JStr ''k02'', [(''id'', JStr ''k02'')]),
            (JStr ''k03'', [(''id'', JStr ''k03'')]),
            (JStr ''k04'', [(''id'', JStr ''k04'')]),
            (JStr ''k05'', [(''id'', JStr ''k05'')]),
            (JStr ''k06'', [(''id'', JStr ''k06'')]),
            (JStr ''k07'', [(''id'', JStr ''k07'')]),
            (JStr ''k08'', [(''id'', JStr ''k08'')]),
            (JStr ''k09'', [(''id'', JStr ''k09'')]),
            (JStr ''k10'', [(''id'', JStr ''k10'')]),
            (JStr ''k11'', [(''id'', JStr ''k11'')])]\<rparr>)",
      THEN conjunct2, THEN conjunct1, THEN mp, OF conjI [OF h2 conjI [OF h4 h5]]]
  note both = paginate_defaults [where qpage = None and qlimit = None
      and e = "\<lparr>uuid = ''u1'', now = JStr ''t''\<rparr>" and c = Doctors
      and st = "(empty_state\<lparr>doctorsStorage :=
           [(JStr ''k01'', [(''id'', JStr ''k01'')]),
            (JStr ''k02'', [(''id'', JStr ''k02'')]),
            (JStr ''k03'', [(''id'', JStr ''k03'')]),
            (JStr ''k04'', [(''id'', JStr ''k04'')]),
            (JStr ''k05'', [(''id'', JStr ''k05'')]),
            (JStr ''k06'', [(''id'', JStr ''k06'')]),
            (JStr ''k07'', [(''id'', JStr ''k07'')]),
            (JStr ''k08'', [(''id'', JStr ''k08'')]),
            (JStr ''k09'', [(''id'', JStr ''k09'')]),
            (JStr ''k10'', [(''id'', JStr ''k10'')]),
            (JStr ''k11'', [(''id'', JStr ''k11'')])]\<rparr>)",
      THEN conjunct2, THEN conjunct2, THEN conjunct1, THEN mp, OF conjI [OF h3 h3]]
  show ?thesis
    using h1 h2 h3 h4 page limit both
    by (simp add: btree_values_def)
qed

subsection \<open>Objects and maps after a write\<close>

lemma map_of_assign: "map_of (assign t s) = map_of t ++ map_of (rev s)"
  unfolding assign_def
  by (induction s arbitrary: t) (auto simp: update_conv' map_add_upd_left)

lemma assign_keeps_id: "\<exists>k. prop_of (assign ((''id'', v) # t) s) ''id'' = Some k"
  by (cases "map_of (rev s) ''id''") (simp_all add: prop_of_def map_of_assign map_add_def)

lemma btree_get_insert: "btree_get (btree_insert k v m) k = Some v"
  by (simp add: btree_get_def btree_insert_def update_conv')

lemma btree_get_values: "btree_get m k = Some v \<Longrightarrow> v \<in> set (btree_values m)"
  unfolding btree_get_def btree_values_def
  by (drule map_of_SomeD) force

lemma storage_of_put: "storage_of c (put_storage c m st) = m"
  by (cases c) simp_all

lemma storage_of_put_other: "c' \<noteq> c \<Longrightarrow> storage_of c' (put_storage c m st) = storage_of c' st"
  by (cases c; cases c') simp_all

lemma construct3_has_id: "\<exists>k. prop_of (construct3 c e body) ''id'' = Some k"
proof (cases c)
  case Doctors
  then show ?thesis by (simp add: mk_obj_def prop_of_def)
qed (simp_all add: assign_keeps_id)

lemma construct2_id: "prop_of (construct2 newDate c e body) ''id'' = Some (JStr (uuid e))"
  by (cases c) (simp_all add: mk_obj_def prop_of_def)

lemma post3_valid:
  assumes "\<not> invalid3 c body"
  shows "\<exists>k. prop_of (construct3 c e body) ''id'' = Some k
    \<and> post3 c e body st =
        (created3 c (construct3 c e body),
         put_storage c (btree_insert k (construct3 c e body) (storage_of c st)) st)"
proof -
  obtain k where "prop_of (construct3 c e body) ''id'' = Some k"
    using construct3_has_id by blast
  then show ?thesis
    using assms by (simp add: post3_def created3_def json_res_def Let_def)
qed

lemma post3_status:
  "status (fst (post3 c e body st)) = (if invalid3 c body then 400 else 201)"
  using post3_valid [of c body e st] by (auto simp: post3_def json_res_def created3_def)

lemma post1_created:
  "\<exists>k. prop_of (assign [(''id'', JStr (uuid e)), (''createdAt'', now e)] body) ''id'' = Some k
    \<and> post1 c e body st =
        (json_res 200 (JObj (assign [(''id'', JStr (uuid e)), (''createdAt'', now e)] body)),
         put_storage c (btree_insert k
           (assign [(''id'', JStr (uuid e)), (''createdAt'', now e)] body) (storage_of c st)) st)"
proof -
  obtain k where
    "prop_of (assign [(''id'', JStr (uuid e)), (''createdAt'', now e)] body) ''id'' = Some k"
    using assign_keeps_id by blast
  then show ?thesis
    by (simp add: post1_def Let_def)
qed


subsection \<open>Create, then fetch\<close>

lemma get_by_id3_present:
  "btree_get (storage_of c s) (JStr ident) = Some entity \<Longrightarrow>
   get_by_id3 c ident s = (found3 c entity, s)"
  by (simp add: get_by_id3_def found3_def json_res_def)

lemma get_all3_listed: "get_all3 c s = (listed3 c (btree_values (storage_of c s)), s)"
  by (simp add: get_all3_def listed3_def json_res_def)

text \<open>
  C8. A later update of another id can replace the entity a create request stored. In
  revision 3, after two doctors are created under \<^verbatim>\<open>u1\<close> and \<^verbatim>\<open>u2\<close>, an update of
  \<^verbatim>\<open>u2\<close> whose payload carries the \<^verbatim>\<open>id\<close> \<^verbatim>\<open>u1\<close> followed by a second update of
  \<^verbatim>\<open>u2\<close> writes the key \<^verbatim>\<open>u1\<close>: no request addressed \<^verbatim>\<open>u1\<close>, and fetching
  \<^verbatim>\<open>u1\<close> no longer returns the doctor that was created. In revision 2, fetching an
  appointment right after it was created returns the \<^verbatim>\<open>Opt\<close> object around it, not the
  appointment.
\<close>

theorem update_replaces_created_entity:
  "handle3 \<lparr>uuid = ''u1'', now = JStr ''t1''\<rparr>
      (Post Doctors [(''name'', JStr ''Ann''), (''speciality'', JStr ''eyes'')]) empty_state =
     Some (\<lparr>status = 201, payload = Json (JObj [(''status'', JNum 201),
              (''message'', JStr ''Doctor created successfully''),
              (''doctor'', JObj [(''id'', JStr ''u1''), (''name'', JStr ''Ann''),
                 (''speciality'', JStr ''eyes''), (''createdAt'', JStr ''t1'')])])\<rparr>,
           \<lparr>doctorsStorage =
              [(JStr ''u1'', [(''id'', JStr ''u1''), (''name'', JStr ''Ann''),
                 (''speciality'', JStr ''eyes''), (''createdAt'', JStr ''t1'')])],
            patientsStorage = [], appointmentsStorage = [], patientRecordsStorage = [],
            medicationsStorage = []\<rparr>)
   \<and> map_option fst (handle3 \<lparr>uuid = ''u6'', now = JStr ''t6''\<rparr> (GetById Doctors ''u1'')
        (run3 [(\<lparr>uuid = ''u1'', now = JStr ''t1''\<rparr>,
                  Post Doctors [(''name'', JStr ''Ann''), (''speciality'', JStr ''eyes'')]),
               (\<lparr>uuid = ''u2'', now = JStr ''t2''\<rparr>,
                  Post Doctors [(''name'', JStr ''Bob''), (''speciality'', JStr ''ears'')]),
               (\<lparr>uuid = ''u3'', now = JStr ''t3''\<rparr>,
                  Put Doctors ''u2'' [(''name'', JStr ''Bob''), (''speciality'', JStr ''ears''),
                    (''id'', JStr ''u1'')]),
               (\<lparr>uuid = ''u4'', now = JStr ''t4''\<rparr>,
                  Put Doctors ''u2'' [(''name'', JStr ''Mal''), (''speciality'', JStr ''ears'')])]
           empty_state)) =
     Some \<lparr>status = 200, payload = Json (JObj [(''status'', JNum 200),
            (''message'', JStr ''Doctor retrieved successfully''),
            (''doctor'', JObj [(''id'', JStr ''u1''), (''name'', JStr ''Mal''),
               (''speciality'', JStr ''ears''), (''createdAt'', JStr ''t2''),
               (''updatedAt'', JStr ''t4'')])])\<rparr>
   \<and> handle2 (\<lambda>d. case d of Some (JStr s) \<Rightarrow> JStr s | _ \<Rightarrow> JNull)
        \<lparr>uuid = ''u1'', now = JStr ''t1''\<rparr>
        (Post Appointments [(''patientId'', JStr ''p1''), (''doctorId'', JStr ''d1''),
           (''dateTime'', JStr ''2024-05-01T10:00:00.000Z'')]) empty_state =
     Some (\<lparr>status = 200, payload = Json (JObj [(''id'', JStr ''u1''),
              (''patientId'', JStr ''p1''), (''doctorId'', JStr ''d1''),
              (''dateTime'', JStr ''2024-05-01T10:00:00.000Z''), (''createdAt'', JStr ''t1''),
              (''updatedAt'', JNull)])\<rparr>,
           \<lparr>doctorsStorage = [], patientsStorage = [],
            appointmentsStorage =
              [(JStr ''u1'', [(''id'', JStr ''u1''), (''patientId'', JStr ''p1''),
                 (''doctorId'', JStr ''d1''), (''dateTime'', JStr ''2024-05-01T10:00:00.000Z''),
                 (''createdAt'', JStr ''t1''), (''updatedAt'', JNull)])],
            patientRecordsStorage = [], medicationsStorage = []\<rparr>)
   \<and> map_option fst (handle2 (\<lambda>d. case d of Some (JStr s) \<Rightarrow> JStr s | _ \<Rightarrow> JNull)
        \<lparr>uuid = ''u2'', now = JStr ''t2''\<rparr> (GetById Appointments ''u1'')
        \<lparr>doctorsStorage = [], patientsStorage = [],
         appointmentsStorage =
           [(JStr ''u1'', [(''id'', JStr ''u1''), (''patientId'', JStr ''p1''),
              (''doctorId'', JStr ''d1''), (''dateTime'', JStr ''2024-05-01T10:00:00.000Z''),
              (''createdAt'', JStr ''t1''), (''updatedAt'', JNull)])],
         patientRecordsStorage = [], medicationsStorage = []\<rparr>) =
     Some \<lparr>status = 200, payload = Json (JObj [(''Some'', JObj [(''id'', JStr ''u1''),
            (''patientId'', JStr ''p1''), (''doctorId'', JStr ''d1''),
            (''dateTime'', JStr ''2024-05-01T10:00:00.000Z''), (''createdAt'', JStr ''t1''),
            (''updatedAt'', JNull)])])\<rparr>"
  by (simp add: after_def post3_def put3_def get_by_id3_def post2_def get_appointment2_def
      opt_json_def not_string_def prop_of_def assign_def mk_obj_def btree_insert_def
      btree_get_def json_res_def empty_state_def Let_def)

text \<open>
  In revisions 1 and 3 a create request that succeeds returns the entity it stored, under
  the entity's own \<^verbatim>\<open>id\<close>. Right after it, the list of the collection contains the
  entity, and where its \<^verbatim>\<open>id\<close> is a string (as a path parameter is) and the revision has
  a \<^verbatim>\<open>GET /:id\<close> route for the collection, that route returns exactly the entity; both
  leave the state as it is.
\<close>

theorem create_then_fetch:
  "(handle3 e (Post c body) st = Some (r, st') \<and> status r = 201 \<longrightarrow>
      (\<exists>entity k. r = created3 c entity \<and> prop_of entity ''id'' = Some k
         \<and> btree_get (storage_of c st') k = Some entity
         \<and> entity \<in> set (btree_values (storage_of c st'))
         \<and> handle3 e' (GetAll c) st' = Some (listed3 c (btree_values (storage_of c st')), st')
         \<and> (k = JStr ident \<and> c \<in> {Doctors, Patients, Appointments} \<longrightarrow>
              handle3 e' (GetById c ident) st' = Some (found3 c entity, st'))))
   \<and> (handle1 e (Post c body) st = Some (r, st') \<longrightarrow>
      (\<exists>entity k. r = json_res 200 (JObj entity) \<and> prop_of entity ''id'' = Some k
         \<and> btree_get (storage_of c st') k = Some entity
         \<and> entity \<in> set (btree_values (storage_of c st'))
         \<and> handle1 e' (GetAll c) st' =
              Some (json_res 200 (JArr (map JObj (btree_values (storage_of c st')))), st')
         \<and> (k = JStr ident \<and> c = Appointments \<longrightarrow>
              handle1 e' (GetById c ident) st' = Some (json_res 200 (JObj entity), st'))))"
proof -
  have fetch3: "btree_get (storage_of c st') (JStr ident) = Some entity \<Longrightarrow>
      c \<in> {Doctors, Patients, Appointments} \<Longrightarrow>
      handle3 e' (GetById c ident) st' = Some (found3 c entity, st')" for entity
    by (auto simp: get_by_id3_present)
  have fetch1: "btree_get (storage_of c st') (JStr ident) = Some entity \<Longrightarrow>
      c = Appointments \<Longrightarrow>
      handle1 e' (GetById c ident) st' = Some (json_res 200 (JObj entity), st')" for entity
    by (auto simp: get_appointment1_def)
  have list3: "handle3 e' (GetAll c) st' = Some (listed3 c (btree_values (storage_of c st')), st')"
    by (simp add: get_all3_listed)
  have list1: "handle1 e' (GetAll c) st' =
      Some (json_res 200 (JArr (map JObj (btree_values (storage_of c st')))), st')"
    by (simp add: get_all1_def)
  have p3: "\<exists>entity k. r = created3 c entity \<and> prop_of entity ''id'' = Some k
         \<and> btree_get (storage_of c st') k = Some entity"
    if post: "handle3 e (Post c body) st = Some (r, st')" and ok: "status r = 201"
  proof -
    have valid: "\<not> invalid3 c body"
      using post ok post3_status [of c e body st] by (auto split: if_splits)
    from post3_valid [OF valid, of e st] post show ?thesis
      by (auto simp: storage_of_put btree_get_insert)
  qed
  have p1: "\<exists>entity k. r = json_res 200 (JObj entity) \<and> prop_of entity ''id'' = Some k
         \<and> btree_get (storage_of c st') k = Some entity"
    if "handle1 e (Post c body) st = Some (r, st')"
    using that post1_created [of e body c st]
    by (auto simp: storage_of_put btree_get_insert)
  have c3: "handle3 e (Post c body) st = Some (r, st') \<and> status r = 201 \<longrightarrow>
      (\<exists>entity k. r = created3 c entity \<and> prop_of entity ''id'' = Some k
         \<and> btree_get (storage_of c st') k = Some entity
         \<and> entity \<in> set (btree_values (storage_of c st'))
         \<and> handle3 e' (GetAll c) st' = Some (listed3 c (btree_values (storage_of c st')), st')
         \<and> (k = JStr ident \<and> c \<in> {Doctors, Patients, Appointments} \<longrightarrow>
              handle3 e' (GetById c ident) st' = Some (found3 c entity, st')))"
  proof
    assume "handle3 e (Post c body) st = Some (r, st') \<and> status r = 201"
    then obtain entity k where made: "r = created3 c entity"
      and own: "prop_of entity ''id'' = Some k"
      and stored: "btree_get (storage_of c st') k = Some entity"
      using p3 by blast
    have listed: "entity \<in> set (btree_values (storage_of c st'))"
      using stored by (rule btree_get_values)
    have fetched: "k = JStr ident \<and> c \<in> {Doctors, Patients, Appointments} \<longrightarrow>
        handle3 e' (GetById c ident) st' = Some (found3 c entity, st')"
      using stored fetch3 [of entity] by blast
    show "\<exists>entity k. r = created3 c entity \<and> prop_of entity ''id'' = Some k
         \<and> btree_get (storage_of c st') k = Some entity
         \<and> entity \<in> set (btree_values (storage_of c st'))
         \<and> handle3 e' (GetAll c) st' = Some (listed3 c (btree_values (storage_of c st')), st')
         \<and> (k = JStr ident \<and> c \<in> {Doctors, Patients, Appointments} \<longrightarrow>
              handle3 e' (GetById c ident) st' = Some (found3 c entity, st'))"
      using made own stored listed fetched list3 by blast
  qed
  have c1: "handle1 e (Post c body) st = Some (r, st') \<longrightarrow>
      (\<exists>entity k. r = json_res 200 (JObj entity) \<and> prop_of entity ''id'' = Some k
         \<and> btree_get (storage_of c st') k = Some entity
         \<and> entity \<in> set (btree_values (storage_of c st'))
         \<and> handle1 e' (GetAll c) st' =
              Some (json_res 200 (JArr (map JObj (btree_values (storage_of c st')))), st')
         \<and> (k = JStr ident \<and> c = Appointments \<longrightarrow>
              handle1 e' (GetById c ident) st' = Some (json_res 200 (JObj entity), st')))"
  proof
    assume "handle1 e (Post c body) st = Some (r, st')"
    then obtain entity k where made: "r = json_res 200 (JObj entity)"
      and own: "prop_of entity ''id'' = Some k"
      and stored: "btree_get (storage_of c st') k = Some entity"
      using p1 by blast
    have listed: "entity \<in> set (btree_values (storage_of c st'))"
      using stored by (rule btree_get_values)
    have fetched: "k = JStr ident \<and> c = Appointments \<longrightarrow>
        handle1 e' (GetById c ident) st' = Some (json_res 200 (JObj entity), st')"
      using stored fetch1 [of entity] by blast
    show "\<exists>entity k. r = json_res 200 (JObj entity) \<and> prop_of entity ''id'' = Some k
         \<and> btree_get (storage_of c st') k = Some entity
         \<and> entity \<in> set (btree_values (storage_of c st'))
         \<and> handle1 e' (GetAll c) st' =
              Some (json_res 200 (JArr (map JObj (btree_values (storage_of c st')))), st')
         \<and> (k = JStr ident \<and> c = Appointments \<longrightarrow>
              handle1 e' (GetById c ident) st' = Some (json_res 200 (JObj entity), st'))"
      using made own stored listed fetched list1 by blast
  qed
  show ?thesis
    using c3 c1 by (rule conjI)
qed
theorem create_then_fetch_witness:
  "handle3 \<lparr>uuid = ''u1'', now = JStr ''t''\<rparr>
       (Post Appointments
          [(''patientId'', JStr ''p1''), (''doctorId'', JStr ''d1''),
            (''dateTime'', JStr ''2024-05-01T10:00''), (''duration'', JNum 30),
            (''description'', JStr ''checkup'')]) empty_state =
     Some (created3 Appointments
          [(''id'', JStr ''u1''), (''createdAt'', JStr ''t''), (''patientId'', JStr ''p1''),
            (''doctorId'', JStr ''d1''), (''dateTime'', JStr ''2024-05-01T10:00''),
            (''duration'', JNum 30), (''description'', JStr ''checkup'')],
        (empty_state\<lparr>appointmentsStorage := [(JStr ''u1'',
           [(''id'', JStr ''u1''), (''createdAt'', JStr ''t''), (''patientId'', JStr ''p1''),
            (''doctorId'', JStr ''d1''), (''dateTime'', JStr ''2024-05-01T10:00''),
            (''duration'', JNum 30), (''description'', JStr ''checkup'')])]\<rparr>))
   \<and> status (created3 Appointments
          [(''id'', JStr ''u1''), (''createdAt'', JStr ''t''), (''patientId'', JStr ''p1''),
            (''doctorId'', JStr ''d1''), (''dateTime'', JStr ''2024-05-01T10:00''),
            (''duration'', JNum 30), (''description'', JStr ''checkup'')]) = 201
   \<and> handle3 \<lparr>uuid = ''u2'', now = JStr ''t2''\<rparr> (GetById Appointments ''u1'')
        (empty_state\<lparr>appointmentsStorage := [(JStr ''u1'',
           [(''id'', JStr ''u1''), (''createdAt'', JStr ''t''), (''patientId'', JStr ''p1''),
            (''doctorId'', JStr ''d1''), (''dateTime'', JStr ''2024-05-01T10:00''),
            (''duration'', JNum 30), (''description'', JStr ''checkup'')])]\<rparr>) =
     Some (found3 Appointments
          [(''id'', JStr ''u1''), (''createdAt'', JStr ''t''), (''patientId'', JStr ''p1''),
            (''doctorId'', JStr ''d1''), (''dateTime'', JStr ''2024-05-01T10:00''),
            (''duration'', JNum 30), (''description'', JStr ''checkup'')],
        (empty_state\<lparr>appointmentsStorage := [(JStr ''u1'',
           [(''id'', JStr ''u1''), (''createdAt'', JStr ''t''), (''patientId'', JStr ''p1''),
            (''doctorId'', JStr ''d1''), (''dateTime'', JStr ''2024-05-01T10:00''),
            (''duration'', JNum 30), (''description'', JStr ''checkup'')])]\<rparr>))
   \<and> handle3 \<lparr>uuid = ''u2'', now = JStr ''t2''\<rparr> (GetAll Appointments)
        (empty_state\<lparr>appointmentsStorage := [(JStr ''u1'',
           [(''id'', JStr ''u1''), (''createdAt'', JStr ''t''), (''patientId'', JStr ''p1''),
            (''doctorId'', JStr ''d1''), (''dateTime'', JStr ''2024-05-01T10:00''),
            (''duration'', JNum 30), (''description'', JStr ''checkup'')])]\<rparr>) =
     Some (listed3 Appointments
          [[(''id'', JStr ''u1''), (''createdAt'', JStr ''t''), (''patientId'', JStr ''p1''),
            (''doctorId'', JStr ''d1''), (''dateTime'', JStr ''2024-05-01T10:00''),
            (''duration'', JNum 30), (''description'', JStr ''checkup'')]],
        (empty_state\<lparr>appointmentsStorage := [(JStr ''u1'',
           [(''id'', JStr ''u1''), (''createdAt'', JStr ''t''), (''patientId'', JStr ''p1''),
            (''doctorId'', JStr ''d1''), (''dateTime'', JStr ''2024-05-01T10:00''),
            (''duration'', JNum 30), (''description'', JStr ''checkup'')])]\<rparr>))"
proof -
  have post: "handle3 \<lparr>uuid = ''u1'', now = JStr ''t''\<rparr>
       (Post Appointments
          [(''patientId'', JStr ''p1''), (''doctorId'', JStr ''d1''),
            (''dateTime'', JStr ''2024-05-01T10:00''), (''duration'', JNum 30),
            (''description'', JStr ''checkup'')]) empty_state =
     Some (created3 Appointments
          [(''id'', JStr ''u1''), (''createdAt'', JStr ''t''), (''patientId'', JStr ''p1''),
            (''doctorId'', JStr ''d1''), (''dateTime'', JStr ''2024-05-01T10:00''),
            (''duration'', JNum 30), (''description'', JStr ''checkup'')],
        (empty_state\<lparr>appointmentsStorage := [(JStr ''u1'',
           [(''id'', JStr ''u1''), (''createdAt'', JStr ''t''), (''patientId'', JStr ''p1''),
            (''doctorId'', JStr ''d1''), (''dateTime'', JStr ''2024-05-01T10:00''),
            (''duration'', JNum 30), (''description'', JStr ''checkup'')])]\<rparr>))"
    by (simp add: post3_def not_string_def not_number_def prop_of_def assign_def
        btree_insert_def json_res_def created3_def empty_state_def Let_def)
  have ok: "status (created3 Appointments
          [(''id'', JStr ''u1''), (''createdAt'', JStr ''t''), (''patientId'', JStr ''p1''),
            (''doctorId'', JStr ''d1''), (''dateTime'', JStr ''2024-05-01T10:00''),
            (''duration'', JNum 30), (''description'', JStr ''checkup'')]) = 201"
    by (simp add: created3_def)
  from create_then_fetch [where e = "\<lparr>uuid = ''u1'', now = JStr ''t''\<rparr>" and c = Appointments
        and st = empty_state and ident = "''u1''"
        and e' = "\<lparr>uuid = ''u2'', now = JStr ''t2''\<rparr>", THEN conjunct1, THEN mp,
        OF conjI [OF post ok]]
  obtain entity k where made: "created3 Appointments
          [(''id'', JStr ''u1''), (''createdAt'', JStr ''t''), (''patientId'', JStr ''p1''),
            (''doctorId'', JStr ''d1''), (''dateTime'', JStr ''2024-05-01T10:00''),
            (''duration'', JNum 30), (''description'', JStr ''checkup'')] = created3 Appointments entity"
    and own: "prop_of entity ''id'' = Some k"
    and listed: "handle3 \<lparr>uuid = ''u2'', now = JStr ''t2''\<rparr> (GetAll Appointments)
        (empty_state\<lparr>appointmentsStorage := [(JStr ''u1'',
           [(''id'', JStr ''u1''), (''createdAt'', JStr ''t''), (''patientId'', JStr ''p1''),
            (''doctorId'', JStr ''d1''), (''dateTime'', JStr ''2024-05-01T10:00''),
            (''duration'', JNum 30), (''description'', JStr ''checkup'')])]\<rparr>) =
      Some (listed3 Appointments (btree_values (storage_of Appointments
        (empty_state\<lparr>appointmentsStorage := [(JStr ''u1'',
           [(''id'', JStr ''u1''), (''createdAt'', JStr ''t''), (''patientId'', JStr ''p1''),
            (''doctorId'', JStr ''d1''), (''dateTime'', JStr ''2024-05-01T10:00''),
            (''duration'', JNum 30), (''description'', JStr ''checkup'')])]\<rparr>))),
        (empty_state\<lparr>appointmentsStorage := [(JStr ''u1'',
           [(''id'', JStr ''u1''), (''createdAt'', JStr ''t''), (''patientId'', JStr ''p1''),
            (''doctorId'', JStr ''d1''), (''dateTime'', JStr ''2024-05-01T10:00''),
            (''duration'', JNum 30), (''description'', JStr ''checkup'')])]\<rparr>))"
    and fetched: "k = JStr ''u1'' \<and> Appointments \<in> {Doctors, Patients, Appointments} \<longrightarrow>
      handle3 \<lparr>uuid = ''u2'', now = JStr ''t2''\<rparr> (GetById Appointments ''u1'')
        (empty_state\<lparr>appointmentsStorage := [(JStr ''u1'',
           [(''id'', JStr ''u1''), (''createdAt'', JStr ''t''), (''patientId'', JStr ''p1''),
            (''doctorId'', JStr ''d1''), (''dateTime'', JStr ''2024-05-01T10:00''),
            (''duration'', JNum 30), (''description'', JStr ''checkup'')])]\<rparr>) =
      Some (found3 Appointments entity,
        (empty_state\<lparr>appointmentsStorage := [(JStr ''u1'',
           [(''id'', JStr ''u1''), (''createdAt'', JStr ''t''), (''patientId'', JStr ''p1''),
            (''doctorId'', JStr ''d1''), (''dateTime'', JStr ''2024-05-01T10:00''),
            (''duration'', JNum 30), (''description'', JStr ''checkup'')])]\<rparr>))"
    by blast
  have entity: "entity = [(''id'', JStr ''u1''), (''createdAt'', JStr ''t''), (''patientId'', JStr ''p1''),
            (''doctorId'', JStr ''d1''), (''dateTime'', JStr ''2024-05-01T10:00''),
            (''duration'', JNum 30), (''description'', JStr ''checkup'')]"
    using made by (simp add: created3_def)
  have k: "k = JStr ''u1''"
    using own by (simp add: entity prop_of_def)
  show ?thesis
    using post ok listed fetched
    by (simp add: entity k btree_values_def)
qed

subsection \<open>References to other collections\<close>















subsection \<open>What a request writes\<close>

lemma btree_get_insert_other: "k' \<noteq> k \<Longrightarrow> btree_get (btree_insert k v m) k' = btree_get m k'"
  by (simp add: btree_get_def btree_insert_def update_conv')

lemma btree_get_remove_other:
  "k' \<noteq> k \<Longrightarrow> btree_get (snd (btree_remove k m)) k' = btree_get m k'"
  by (simp add: btree_get_def btree_remove_def delete_conv')

lemma keyed_by_id_get:
  "keyed_by_id m \<Longrightarrow> btree_get m k = Some entity \<Longrightarrow> prop_of entity ''id'' = Some k"
  unfolding keyed_by_id_def btree_get_def
  by (drule map_of_SomeD) (auto simp: list_all_iff)

lemma post1_snd:
  "\<exists>k v. snd (post1 c e body st) = put_storage c (btree_insert k v (storage_of c st)) st"
  using post1_created [of e body c st] by (metis snd_conv)

lemma post2_snd:
  "\<exists>k v. snd (post2 newDate c e body st) = put_storage c (btree_insert k v (storage_of c st)) st"
  by (auto simp: post2_def Let_def)

lemma post3_snd:
  "snd (post3 c e body st) = st
   \<or> (\<exists>k v. snd (post3 c e body st) = put_storage c (btree_insert k v (storage_of c st)) st)"
proof (cases "invalid3 c body")
  case True
  then show ?thesis by (simp add: post3_def)
next
  case False
  from post3_valid [OF this, of e st] show ?thesis by (metis snd_conv)
qed

lemma put3_snd:
  "snd (put3 c e ident body st) = st
   \<or> (\<exists>entity k v. btree_get (storage_of c st) (JStr ident) = Some entity
        \<and> prop_of entity ''id'' = Some k
        \<and> snd (put3 c e ident body st) = put_storage c (btree_insert k v (storage_of c st)) st)"
  by (auto simp: put3_def Let_def split: option.splits)

lemma delete3_snd:
  "snd (delete3 c ident st) = put_storage c (snd (btree_remove (JStr ident) (storage_of c st))) st"
  by (simp add: delete3_def btree_remove_def Let_def split: option.splits)

lemma put_appointment1_snd:
  "snd (put_appointment1 e ident body st) = st
   \<or> (\<exists>entity k v. btree_get (appointmentsStorage st) (JStr ident) = Some entity
        \<and> prop_of entity ''id'' = Some k
        \<and> snd (put_appointment1 e ident body st) =
            put_storage Appointments (btree_insert k v (appointmentsStorage st)) st)"
  by (auto simp: put_appointment1_def Let_def split: option.splits)

lemma put_appointment2_snd:
  "snd (put_appointment2 newDate e ident body st) = st
   \<or> (\<exists>v. snd (put_appointment2 newDate e ident body st) =
            put_storage Appointments (btree_insert (JStr ident) v (appointmentsStorage st)) st)"
  by (auto simp: put_appointment2_def Let_def split: option.splits)

lemma delete_appointment_snd:
  "snd (delete_appointment1 ident st) =
     put_storage Appointments (snd (btree_remove (JStr ident) (appointmentsStorage st))) st"
  "snd (delete_appointment2 ident st) =
     put_storage Appointments (snd (btree_remove (JStr ident) (appointmentsStorage st))) st"
  by (simp_all add: delete_appointment1_def delete_appointment2_def btree_remove_def Let_def
      split: option.splits)

lemma reads_snd:
  "snd (get_all1 c st) = st" "snd (filter_by key ident c st) = st"
  "snd (get_appointment1 ident st) = st" "snd (get_appointment2 ident st) = st"
  "snd (get_all3 c st) = st" "snd (get_by_id3 c ident st) = st"
  "snd (get_for3 who c ident st) = st" "snd (paginate3 c qpage qlimit st) = st"
  by (simp_all add: get_all1_def filter_by_def get_appointment1_def get_appointment2_def
      get_all3_def get_by_id3_def get_for3_def paginate3_def Let_def split: option.splits)

lemma after_simps: "after None st = st" "after (Some p) st = snd p"
  by (simp_all add: after_def split: prod.splits)

lemma handle1_writes:
  "after (handle1 e rq st) st = st
   \<or> (\<exists>k v. after (handle1 e rq st) st =
        put_storage (target rq) (btree_insert k v (storage_of (target rq) st)) st)
   \<or> (\<exists>k. after (handle1 e rq st) st =
        put_storage (target rq) (snd (btree_remove k (storage_of (target rq) st))) st)"
proof (cases rq)
  case (Post c body)
  then show ?thesis using post1_snd [of c e body st] by (simp add: after_simps)
next
  case (Put c ident body)
  then show ?thesis
    using put_appointment1_snd [of e ident body st]
    by (cases c) (auto simp: after_simps)
next
  case (Delete c ident)
  then show ?thesis
    by (cases c) (auto simp: after_simps delete_appointment_snd)
next
  case (GetById c ident)
  then show ?thesis by (cases c) (simp_all add: after_simps reads_snd)
next
  case (GetByPatient c ident)
  then show ?thesis by (cases c) (simp_all add: after_simps reads_snd)
next
  case (GetByDoctor c ident)
  then show ?thesis by (cases c) (simp_all add: after_simps reads_snd)
qed (simp_all add: after_simps reads_snd)

lemma handle2_writes:
  "after (handle2 newDate e rq st) st = st
   \<or> (\<exists>k v. after (handle2 newDate e rq st) st =
        put_storage (target rq) (btree_insert k v (storage_of (target rq) st)) st)
   \<or> (\<exists>k. after (handle2 newDate e rq st) st =
        put_storage (target rq) (snd (btree_remove k (storage_of (target rq) st))) st)"
proof (cases rq)
  case (Post c body)
  then show ?thesis using post2_snd [of newDate c e body st] by (simp add: after_simps)
next
  case (Put c ident body)
  then show ?thesis
    using put_appointment2_snd [of newDate e ident body st]
    by (cases c) (auto simp: after_simps)
next
  case (Delete c ident)
  then show ?thesis
    by (cases c) (auto simp: after_simps delete_appointment_snd)
next
  case (GetById c ident)
  then show ?thesis by (cases c) (simp_all add: after_simps reads_snd)
next
  case (GetByPatient c ident)
  then show ?thesis by (cases c) (simp_all add: after_simps reads_snd)
next
  case (GetByDoctor c ident)
  then show ?thesis by (cases c) (simp_all add: after_simps reads_snd)
qed (simp_all add: after_simps reads_snd)

lemma handle3_writes:
  "after (handle3 e rq st) st = st
   \<or> (\<exists>k v. after (handle3 e rq st) st =
        put_storage (target rq) (btree_insert k v (storage_of (target rq) st)) st)
   \<or> (\<exists>k. after (handle3 e rq st) st =
        put_storage (target rq) (snd (btree_remove k (storage_of (target rq) st))) st)"
proof (cases rq)
  case (Post c body)
  then show ?thesis using post3_snd [of c e body st] by (auto simp: after_simps)
next
  case (Put c ident body)
  then show ?thesis
    using put3_snd [of c e ident body st]
    by (cases c) (auto simp: after_simps)
next
  case (Delete c ident)
  then show ?thesis
    by (cases c) (auto simp: after_simps delete3_snd)
next
  case (GetById c ident)
  then show ?thesis by (cases c) (simp_all add: after_simps reads_snd)
next
  case (GetByPatient c ident)
  then show ?thesis by (cases c) (simp_all add: after_simps reads_snd)
next
  case (GetByDoctor c ident)
  then show ?thesis by (cases c) (simp_all add: after_simps reads_snd)
qed (simp_all add: after_simps reads_snd)

lemma writes_other:
  assumes "st' = st
     \<or> (\<exists>k v. st' = put_storage c (btree_insert k v (storage_of c st)) st)
     \<or> (\<exists>k. st' = put_storage c (snd (btree_remove k (storage_of c st))) st)"
    and "c' \<noteq> c"
  shows "storage_of c' st' = storage_of c' st"
  using assms by (auto simp: storage_of_put_other)

lemma writes_one_key:
  assumes "st' = st
     \<or> (\<exists>k v. st' = put_storage c (btree_insert k v (storage_of c st)) st)
     \<or> (\<exists>k. st' = put_storage c (snd (btree_remove k (storage_of c st))) st)"
  shows "\<exists>k. \<forall>k'. k' \<noteq> k \<longrightarrow> btree_get (storage_of c st') k' = btree_get (storage_of c st) k'"
proof -
  consider "st' = st"
    | k v where "st' = put_storage c (btree_insert k v (storage_of c st)) st"
    | k where "st' = put_storage c (snd (btree_remove k (storage_of c st))) st"
    using assms by blast
  then show ?thesis
  proof cases
    case 1
    then show ?thesis by simp
  next
    case 2
    then have "\<forall>k'. k' \<noteq> k \<longrightarrow>
        btree_get (storage_of c st') k' = btree_get (storage_of c st) k'"
      by (simp add: storage_of_put btree_get_insert_other)
    then show ?thesis ..
  next
    case 3
    then have "\<forall>k'. k' \<noteq> k \<longrightarrow>
        btree_get (storage_of c st') k' = btree_get (storage_of c st) k'"
      by (simp add: storage_of_put btree_get_remove_other)
    then show ?thesis ..
  qed
qed

lemma delete_addressed:
  assumes "k' \<noteq> JStr ident"
  shows "btree_get (storage_of c (after (handle1 e (Delete c ident) st) st)) k' =
           btree_get (storage_of c st) k'"
    and "btree_get (storage_of c (after (handle2 newDate e (Delete c ident) st) st)) k' =
           btree_get (storage_of c st) k'"
    and "btree_get (storage_of c (after (handle3 e (Delete c ident) st) st)) k' =
           btree_get (storage_of c st) k'"
  using assms
  by (cases c; simp add: after_simps delete_appointment_snd delete3_snd storage_of_put
      btree_get_remove_other)+

lemma put2_addressed:
  assumes "k' \<noteq> JStr ident"
  shows "btree_get (storage_of c (after (handle2 newDate e (Put c ident body) st) st)) k' =
           btree_get (storage_of c st) k'"
proof (cases c)
  case Appointments
  then show ?thesis
    using assms put_appointment2_snd [of newDate e ident body st]
    by (auto simp: after_simps btree_get_insert_other)
qed (simp_all add: after_simps)

lemma put1_addressed:
  assumes "keyed_by_id (storage_of c st)" "k' \<noteq> JStr ident"
  shows "btree_get (storage_of c (after (handle1 e (Put c ident body) st) st)) k' =
           btree_get (storage_of c st) k'"
proof (cases c)
  case Appointments
  then show ?thesis
    using assms put_appointment1_snd [of e ident body st]
      keyed_by_id_get [of "appointmentsStorage st" "JStr ident"]
    by (auto simp: after_simps btree_get_insert_other)
qed (simp_all add: after_simps)

lemma put3_addressed:
  assumes "keyed_by_id (storage_of c st)" "k' \<noteq> JStr ident"
  shows "btree_get (storage_of c (after (handle3 e (Put c ident body) st) st)) k' =
           btree_get (storage_of c st) k'"
proof -
  have "btree_get (storage_of c (snd (put3 c e ident body st))) k' = btree_get (storage_of c st) k'"
    using assms put3_snd [of c e ident body st] keyed_by_id_get [of "storage_of c st" "JStr ident"]
    by (auto simp: storage_of_put btree_get_insert_other)
  then show ?thesis
    by (cases c) (simp_all add: after_simps)
qed

text \<open>
  A request leaves the four collections it does not address as they are, in every
  revision.
\<close>

theorem other_collections_untouched:
  "c' \<noteq> target rq \<longrightarrow>
     storage_of c' (after (handle1 e rq st) st) = storage_of c' st
   \<and> storage_of c' (after (handle2 newDate e rq st) st) = storage_of c' st
   \<and> storage_of c' (after (handle3 e rq st) st) = storage_of c' st"
  using writes_other [OF handle1_writes, of c' rq e st]
    writes_other [OF handle2_writes, of c' rq newDate e st]
    writes_other [OF handle3_writes, of c' rq e st]
  by blast

text \<open>
  A request changes at most one key of the collection it addresses, in every revision. A
  delete changes no key but the one of the path, and neither does an update of
  revision 2. An update of revision 1 or 3 changes no key but the one of the path when
  every entry of the collection is stored under the \<^verbatim>\<open>id\<close> it carries.
\<close>

theorem one_key_per_request:
  "(\<exists>k. \<forall>k'. k' \<noteq> k \<longrightarrow>
       btree_get (storage_of (target rq) (after (handle1 e rq st) st)) k' =
       btree_get (storage_of (target rq) st) k')
   \<and> (\<exists>k. \<forall>k'. k' \<noteq> k \<longrightarrow>
       btree_get (storage_of (target rq) (after (handle2 newDate e rq st) st)) k' =
       btree_get (storage_of (target rq) st) k')
   \<and> (\<exists>k. \<forall>k'. k' \<noteq> k \<longrightarrow>
       btree_get (storage_of (target rq) (after (handle3 e rq st) st)) k' =
       btree_get (storage_of (target rq) st) k')
   \<and> (k' \<noteq> JStr ident \<longrightarrow>
         btree_get (storage_of c (after (handle1 e (Delete c ident) st) st)) k' =
           btree_get (storage_of c st) k'
       \<and> btree_get (storage_of c (after (handle2 newDate e (Delete c ident) st) st)) k' =
           btree_get (storage_of c st) k'
       \<and> btree_get (storage_of c (after (handle3 e (Delete c ident) st) st)) k' =
           btree_get (storage_of c st) k'
       \<and> btree_get (storage_of c (after (handle2 newDate e (Put c ident body) st) st)) k' =
           btree_get (storage_of c st) k'
       \<and> (keyed_by_id (storage_of c st) \<longrightarrow>
             btree_get (storage_of c (after (handle1 e (Put c ident body) st) st)) k' =
               btree_get (storage_of c st) k'
           \<and> btree_get (storage_of c (after (handle3 e (Put c ident body) st) st)) k' =
               btree_get (storage_of c st) k'))"
  using writes_one_key [OF handle1_writes, of rq e st]
    writes_one_key [OF handle2_writes, of rq newDate e st]
    writes_one_key [OF handle3_writes, of rq e st]
    delete_addressed(1) [of k' ident c e st]
    delete_addressed(2) [of k' ident c newDate e st]
    delete_addressed(3) [of k' ident c e st]
    put2_addressed [of k' ident c newDate e body st]
    put1_addressed [of c st k' ident e body]
    put3_addressed [of c st k' ident e body]
  by blast

theorem other_collections_untouched_witness:
  "Doctors \<noteq> target (Post Patients
       [(''name'', JStr ''Ann''), (''age'', JNum 30), (''gender'', JStr ''f'')])
   \<and> storage_of Doctors (after (handle3 \<lparr>uuid = ''u1'', now = JStr ''t''\<rparr> (Post Patients
       [(''name'', JStr ''Ann''), (''age'', JNum 30), (''gender'', JStr ''f'')])
       (empty_state\<lparr>doctorsStorage := [(JStr ''d1'', [(''id'', JStr ''d1'')])]\<rparr>))
       (empty_state\<lparr>doctorsStorage := [(JStr ''d1'', [(''id'', JStr ''d1'')])]\<rparr>)) =
     [(JStr ''d1'', [(''id'', JStr ''d1'')])]
   \<and> storage_of Patients (after (handle3 \<lparr>uuid = ''u1'', now = JStr ''t''\<rparr> (Post Patients
       [(''name'', JStr ''Ann''), (''age'', JNum 30), (''gender'', JStr ''f'')])
       (empty_state\<lparr>doctorsStorage := [(JStr ''d1'', [(''id'', JStr ''d1'')])]\<rparr>))
       (empty_state\<lparr>doctorsStorage := [(JStr ''d1'', [(''id'', JStr ''d1'')])]\<rparr>)) =
     [(JStr ''u1'', [(''id'', JStr ''u1''), (''createdAt'', JStr ''t''),
        (''name'', JStr ''Ann''), (''age'', JNum 30), (''gender'', JStr ''f'')])]"
proof -
  have h: "Doctors \<noteq> target (Post Patients
       [(''name'', JStr ''Ann''), (''age'', JNum 30), (''gender'', JStr ''f'')])"
    by simp
  have wrote: "storage_of Patients (after (handle3 \<lparr>uuid = ''u1'', now = JStr ''t''\<rparr>
       (Post Patients [(''name'', JStr ''Ann''), (''age'', JNum 30), (''gender'', JStr ''f'')])
       (empty_state\<lparr>doctorsStorage := [(JStr ''d1'', [(''id'', JStr ''d1'')])]\<rparr>))
       (empty_state\<lparr>doctorsStorage := [(JStr ''d1'', [(''id'', JStr ''d1'')])]\<rparr>)) =
     [(JStr ''u1'', [(''id'', JStr ''u1''), (''createdAt'', JStr ''t''),
        (''name'', JStr ''Ann''), (''age'', JNum 30), (''gender'', JStr ''f'')])]"
    by (simp add: after_def post3_def not_string_def not_number_def prop_of_def assign_def
        btree_insert_def json_res_def empty_state_def Let_def)
  show ?thesis
    using h wrote
      other_collections_untouched [of Doctors "Post Patients
         [(''name'', JStr ''Ann''), (''age'', JNum 30), (''gender'', JStr ''f'')]"
        "\<lparr>uuid = ''u1'', now = JStr ''t''\<rparr>"
        "empty_state\<lparr>doctorsStorage := [(JStr ''d1'', [(''id'', JStr ''d1'')])]\<rparr>"]
    by simp
qed

theorem one_key_per_request_witness:
  "keyed_by_id (storage_of Doctors (empty_state\<lparr>doctorsStorage :=
        [(JStr ''d1'', [(''id'', JStr ''d1''), (''name'', JStr ''Ann'')]),
         (JStr ''d2'', [(''id'', JStr ''d2''), (''name'', JStr ''Bob'')])]\<rparr>))
   \<and> JStr ''d2'' \<noteq> JStr ''d1''
   \<and> btree_get (storage_of Doctors (after (handle3 \<lparr>uuid = ''u1'', now = JStr ''t''\<rparr>
         (Put Doctors ''d1'' [(''name'', JStr ''Eve''), (''speciality'', JStr ''eyes'')])
         (empty_state\<lparr>doctorsStorage :=
            [(JStr ''d1'', [(''id'', JStr ''d1''), (''name'', JStr ''Ann'')]),
             (JStr ''d2'', [(''id'', JStr ''d2''), (''name'', JStr ''Bob'')])]\<rparr>))
         (empty_state\<lparr>doctorsStorage :=
            [(JStr ''d1'', [(''id'', JStr ''d1''), (''name'', JStr ''Ann'')]),
             (JStr ''d2'', [(''id'', JStr ''d2''), (''name'', JStr ''Bob'')])]\<rparr>)))
       (JStr ''d2'') =
     btree_get (storage_of Doctors (empty_state\<lparr>doctorsStorage :=
            [(JStr ''d1'', [(''id'', JStr ''d1''), (''name'', JStr ''Ann'')]),
             (JStr ''d2'', [(''id'', JStr ''d2''), (''name'', JStr ''Bob'')])]\<rparr>))
       (JStr ''d2'')
   \<and> btree_get (storage_of Doctors (after (handle3 \<lparr>uuid = ''u1'', now = JStr ''t''\<rparr>
         (Put Doctors ''d1'' [(''name'', JStr ''Eve''), (''speciality'', JStr ''eyes'')])
         (empty_state\<lparr>doctorsStorage :=
            [(JStr ''d1'', [(''id'', JStr ''d1''), (''name'', JStr ''Ann'')]),
             (JStr ''d2'', [(''id'', JStr ''d2''), (''name'', JStr ''Bob'')])]\<rparr>))
         (empty_state\<lparr>doctorsStorage :=
            [(JStr ''d1'', [(''id'', JStr ''d1''), (''name'', JStr ''Ann'')]),
             (JStr ''d2'', [(''id'', JStr ''d2''), (''name'', JStr ''Bob'')])]\<rparr>)))
       (JStr ''d1'') =
     Some [(''id'', JStr ''d1''), (''name'', JStr ''Eve''), (''speciality'', JStr ''eyes''),
           (''updatedAt'', JStr ''t'')]"
proof -
  have keyed: "keyed_by_id (storage_of Doctors (empty_state\<lparr>doctorsStorage :=
        [(JStr ''d1'', [(''id'', JStr ''d1''), (''name'', JStr ''Ann'')]),
         (JStr ''d2'', [(''id'', JStr ''d2''), (''name'', JStr ''Bob'')])]\<rparr>))"
    by (simp add: keyed_by_id_def prop_of_def)
  have other: "JStr ''d2'' \<noteq> JStr ''d1''"
    by simp
  have wrote: "btree_get (storage_of Doctors (after (handle3 \<lparr>uuid = ''u1'', now = JStr ''t''\<rparr>
         (Put Doctors ''d1'' [(''name'', JStr ''Eve''), (''speciality'', JStr ''eyes'')])
         (empty_state\<lparr>doctorsStorage :=
            [(JStr ''d1'', [(''id'', JStr ''d1''), (''name'', JStr ''Ann'')]),
             (JStr ''d2'', [(''id'', JStr ''d2''), (''name'', JStr ''Bob'')])]\<rparr>))
         (empty_state\<lparr>doctorsStorage :=
            [(JStr ''d1'', [(''id'', JStr ''d1''), (''name'', JStr ''Ann'')]),
             (JStr ''d2'', [(''id'', JStr ''d2''), (''name'', JStr ''Bob'')])]\<rparr>)))
       (JStr ''d1'') =
     Some [(''id'', JStr ''d1''), (''name'', JStr ''Eve''), (''speciality'', JStr ''eyes''),
           (''updatedAt'', JStr ''t'')]"
    by (simp add: after_def put3_def not_string_def prop_of_def assign_def
        btree_insert_def btree_get_def json_res_def empty_state_def Let_def)
  show ?thesis
    using keyed other wrote
      one_key_per_request [where k' = "JStr ''d2''" and ident = "''d1''" and c = Doctors
        and e = "\<lparr>uuid = ''u1'', now = JStr ''t''\<rparr>"
        and body = "[(''name'', JStr ''Eve''), (''speciality'', JStr ''eyes'')]"
        and st = "empty_state\<lparr>doctorsStorage :=
            [(JStr ''d1'', [(''id'', JStr ''d1''), (''name'', JStr ''Ann'')]),
             (JStr ''d2'', [(''id'', JStr ''d2''), (''name'', JStr ''Bob'')])]\<rparr>"]
    by blast
qed

subsection \<open>Filters that scan, and entities built by a constructor\<close>

text \<open>
  In revisions 1 and 2 the routes named after a patient or a doctor answer with status 200
  and exactly the values of the collection whose \<^verbatim>\<open>patientId\<close> (or \<^verbatim>\<open>doctorId\<close>) is
  the path parameter, in the order of the values, and leave the state as it is.
\<close>

theorem filter_routes_scan:
  "(c \<in> {PatientRecords, Medications} \<longrightarrow>
      handle1 e (GetByPatient c ident) st =
        Some (\<lparr>status = 200, payload = Json (JArr (map JObj
          (filter (\<lambda>r. prop_of r ''patientId'' = Some (JStr ident))
             (btree_values (storage_of c st)))))\<rparr>, st)
    \<and> handle2 newDate e (GetByPatient c ident) st = handle1 e (GetByPatient c ident) st)
   \<and> handle1 e (GetByDoctor PatientRecords ident) st =
        Some (\<lparr>status = 200, payload = Json (JArr (map JObj
          (filter (\<lambda>r. prop_of r ''doctorId'' = Some (JStr ident))
             (btree_values (patientRecordsStorage st)))))\<rparr>, st)
   \<and> handle2 newDate e (GetByDoctor PatientRecords ident) st =
        handle1 e (GetByDoctor PatientRecords ident) st"
  by (auto simp: filter_by_def json_res_def)

theorem filter_routes_scan_witness:
  "PatientRecords \<in> {PatientRecords, Medications}
   \<and> handle1 \<lparr>uuid = ''u1'', now = JStr ''t''\<rparr> (GetByPatient PatientRecords ''p1'')
        (empty_state\<lparr>patientRecordsStorage :=
           [(JStr ''r1'', [(''id'', JStr ''r1''), (''patientId'', JStr ''p1'')]),
            (JStr ''r2'', [(''id'', JStr ''r2''), (''patientId'', JStr ''p2'')]),
            (JStr ''r3'', [(''id'', JStr ''r3''), (''patientId'', JStr ''p1'')])]\<rparr>) =
      Some (\<lparr>status = 200, payload = Json (JArr
          [JObj [(''id'', JStr ''r1''), (''patientId'', JStr ''p1'')],
           JObj [(''id'', JStr ''r3''), (''patientId'', JStr ''p1'')]])\<rparr>,
        empty_state\<lparr>patientRecordsStorage :=
           [(JStr ''r1'', [(''id'', JStr ''r1''), (''patientId'', JStr ''p1'')]),
            (JStr ''r2'', [(''id'', JStr ''r2''), (''patientId'', JStr ''p2'')]),
            (JStr ''r3'', [(''id'', JStr ''r3''), (''patientId'', JStr ''p1'')])]\<rparr>)"
  using filter_routes_scan [of PatientRecords "\<lparr>uuid = ''u1'', now = JStr ''t''\<rparr>" "''p1''"
      "empty_state\<lparr>patientRecordsStorage :=
           [(JStr ''r1'', [(''id'', JStr ''r1''), (''patientId'', JStr ''p1'')]),
            (JStr ''r2'', [(''id'', JStr ''r2''), (''patientId'', JStr ''p2'')]),
            (JStr ''r3'', [(''id'', JStr ''r3''), (''patientId'', JStr ''p1'')])]\<rparr>"]
  by (simp add: btree_values_def prop_of_def)

lemma construct2_createdAt:
  "prop_of (construct2 newDate c e body) ''createdAt'' = Some (now e)"
  by (cases c) (simp_all add: mk_obj_def prop_of_def split: option.splits)

lemma construct3_doctor:
  "prop_of (construct3 Doctors e body) ''id'' = Some (JStr (uuid e))"
  "prop_of (construct3 Doctors e body) ''createdAt'' = Some (now e)"
  by (simp_all add: mk_obj_def prop_of_def split: option.splits)

text \<open>
  Where the entity is built by a constructor (every create route of revision 2, and the
  doctor route of revision 3 once the payload passed validation), the entity is stored
  under the generated identifier, and its \<^verbatim>\<open>id\<close> and \<^verbatim>\<open>createdAt\<close> are the
  generated identifier and the server's date whatever the payload holds.
\<close>

theorem constructor_keeps_generated_id:
  "(\<exists>entity. handle2 newDate e (Post c body) st =
        Some (\<lparr>status = 200, payload = Json (JObj entity)\<rparr>,
              put_storage c (btree_insert (JStr (uuid e)) entity (storage_of c st)) st)
      \<and> prop_of entity ''id'' = Some (JStr (uuid e))
      \<and> prop_of entity ''createdAt'' = Some (now e))
   \<and> (\<not> invalid3 Doctors body \<longrightarrow>
        (\<exists>entity. handle3 e (Post Doctors body) st =
            Some (created3 Doctors entity,
                  put_storage Doctors (btree_insert (JStr (uuid e)) entity (doctorsStorage st)) st)
          \<and> prop_of entity ''id'' = Some (JStr (uuid e))
          \<and> prop_of entity ''createdAt'' = Some (now e)))"
proof -
  have r2: "handle2 newDate e (Post c body) st =
        Some (\<lparr>status = 200, payload = Json (JObj (construct2 newDate c e body))\<rparr>,
              put_storage c (btree_insert (JStr (uuid e)) (construct2 newDate c e body)
                (storage_of c st)) st)"
    by (simp add: post2_def Let_def json_res_def)
  have r3: "\<not> invalid3 Doctors body \<Longrightarrow>
      handle3 e (Post Doctors body) st =
        Some (created3 Doctors (construct3 Doctors e body),
              put_storage Doctors (btree_insert (JStr (uuid e)) (construct3 Doctors e body)
                (doctorsStorage st)) st)"
    using post3_valid [of Doctors body e st] construct3_doctor(1) [of e body]
    by auto
  show ?thesis
    using r2 r3 construct2_id [of newDate c e body] construct2_createdAt [of newDate c e body]
      construct3_doctor [of e body]
    by blast
qed

theorem constructor_keeps_generated_id_witness:
  "\<not> invalid3 Doctors [(''name'', JStr ''Ann''), (''speciality'', JStr ''eyes''),
        (''id'', JStr ''chosen''), (''createdAt'', JStr ''never'')]
   \<and> handle3 \<lparr>uuid = ''u1'', now = JStr ''t''\<rparr>
        (Post Doctors [(''name'', JStr ''Ann''), (''speciality'', JStr ''eyes''),
           (''id'', JStr ''chosen''), (''createdAt'', JStr ''never'')]) empty_state =
      Some (created3 Doctors [(''id'', JStr ''u1''), (''name'', JStr ''Ann''),
              (''speciality'', JStr ''eyes''), (''createdAt'', JStr ''t'')],
            empty_state\<lparr>doctorsStorage := [(JStr ''u1'', [(''id'', JStr ''u1''),
              (''name'', JStr ''Ann''), (''speciality'', JStr ''eyes''),
              (''createdAt'', JStr ''t'')])]\<rparr>)"
proof -
  have valid: "\<not> invalid3 Doctors [(''name'', JStr ''Ann''), (''speciality'', JStr ''eyes''),
        (''id'', JStr ''chosen''), (''createdAt'', JStr ''never'')]"
    by (simp add: not_string_def prop_of_def)
  have built: "construct3 Doctors \<lparr>uuid = ''u1'', now = JStr ''t''\<rparr>
        [(''name'', JStr ''Ann''), (''speciality'', JStr ''eyes''),
         (''id'', JStr ''chosen''), (''createdAt'', JStr ''never'')] =
      [(''id'', JStr ''u1''), (''name'', JStr ''Ann''), (''speciality'', JStr ''eyes''),
       (''createdAt'', JStr ''t'')]"
    by (simp add: mk_obj_def prop_of_def)
  show ?thesis
    using valid built
      constructor_keeps_generated_id [of "\<lambda>d. JNull" "\<lparr>uuid = ''u1'', now = JStr ''t''\<rparr>"
        Doctors "[(''name'', JStr ''Ann''), (''speciality'', JStr ''eyes''),
           (''id'', JStr ''chosen''), (''createdAt'', JStr ''never'')]" empty_state]
    by (auto simp: post3_def created3_def json_res_def Let_def prop_of_def btree_insert_def
        empty_state_def)
qed

end
